theory Spec2Isabelle
  imports Main "HOL-Library.AList"
begin

section \<open>Table migration of the hive metastore: data model\<close>

text \<open>
  A shallow embedding of \<^verbatim>\<open>hive_metastore/table_migrate.py\<close>: the classes
  \<^verbatim>\<open>TablesMigrate\<close> and \<^verbatim>\<open>MigrationStatusRefresher\<close>. Python strings are
  \<^typ>\<open>string\<close>, a \<^verbatim>\<open>dict\<close> is an association list with distinct keys in
  insertion order (updated with \<^const>\<open>AList.update\<close>, read with \<^const>\<open>map_of\<close>),
  an exception is a value of the type \<open>error\<close>, and every call on the SQL backend is
  appended to a trace, so that "which statements were issued, in which order" is a
  property of the resulting state.
\<close>

subsection \<open>Exceptions\<close>

datatype error =
    StopIteration
  | AttributeError string
  | KeyError string
  | BackendError string
  | ManyError "error list"

subsection \<open>Strings\<close>

text \<open>
  \<^verbatim>\<open>str.lower()\<close> is the lower-casing of the Python runtime, over all of Unicode. It is
  not defined here: the two objects below carry it as a parameter (the fields
  \<open>msr_lower\<close> and \<open>str_lower\<close>), so every result holds for whatever function on strings
  it is. The function \<open>ascii_lower\<close> is the instance that the example objects use: it
  maps the ASCII capital letters and keeps every other character, which is what
  \<^verbatim>\<open>str.lower()\<close> does on ASCII text.
\<close>

definition ascii_lower_char :: "char \<Rightarrow> char" where
  "ascii_lower_char c =
     (let n = (of_char c :: nat) in if 65 \<le> n \<and> n \<le> 90 then char_of (n + 32) else c)"

definition ascii_lower :: "string \<Rightarrow> string" where
  "ascii_lower s = map ascii_lower_char s"

text \<open>
  \<^verbatim>\<open>s.split(sep)\<close> for a separator of one character: the segments between the
  separators, at least one segment.
\<close>

fun split :: "char \<Rightarrow> string \<Rightarrow> string list" where
  "split sep [] = [[]]"
| "split sep (c # cs) =
     (if c = sep then [] # split sep cs
      else (case split sep cs of [] \<Rightarrow> [[c]] | x # xs \<Rightarrow> (c # x) # xs))"

text \<open>How an f-string renders an optional string: \<^verbatim>\<open>None\<close> prints as its name.\<close>

definition str_opt :: "string option \<Rightarrow> string" where
  "str_opt x = (case x of None \<Rightarrow> ''None'' | Some s \<Rightarrow> s)"

subsection \<open>Source objects, rules and migration status\<close>

text \<open>
  Modelled from the spec: the enum \<^verbatim>\<open>What\<close> of \<^verbatim>\<open>hive_metastore/tables.py\<close>, which
  is not among the sources here. The spec gives it as a closed enum of four members.
\<close>

datatype What = DBFS_ROOT_DELTA | EXTERNAL_SYNC | VIEW | NOT_SUPPORTED

text \<open>
  The class \<^verbatim>\<open>Table\<close> is declared in \<^verbatim>\<open>hive_metastore/tables.py\<close> as well. The fields
  read by the migration code are fields of the record; the derived attributes \<open>key\<close>
  and \<open>what\<close> are taken as given, and the methods that build SQL text are carried by
  the object as functions, so every result below holds for whatever text they build.
  Their names say which tag each writes, and the reads in \<^verbatim>\<open>table_migrate.py\<close> agree:
  \<open>upgraded_to\<close> is read from the properties of the source table and \<open>upgraded_from\<close>
  from those of the destination objects. So \<open>sql_alter_to\<close> builds the tag on the source
  ("migrated to") and \<open>sql_alter_from\<close>, which takes the workspace id, the tag on the
  destination ("migrated from").
\<close>

record Table =
  database :: string
  name :: string
  key :: string
  kind :: string
  object_type :: string
  what :: What
  upgraded_to :: "string option"
  sql_migrate_external :: "string \<Rightarrow> string"
  sql_migrate_dbfs :: "string \<Rightarrow> string"
  sql_migrate_view :: "string \<Rightarrow> string"
  sql_alter_to :: "string \<Rightarrow> string"
  sql_alter_from :: "string \<Rightarrow> int \<Rightarrow> string"
  sql_unset_upgraded_to :: string

record Rule =
  as_uc_table_key :: string

record TableToMigrate =
  t_src :: Table
  t_rule :: Rule

record MigrationStatus =
  src_schema :: string
  src_table :: string
  dst_catalog :: "string option"
  dst_schema :: "string option"
  dst_table :: "string option"
  update_ts :: "string option"

record MigrationCount =
  mc_database :: string
  what_count :: "(What \<times> nat) list"

subsection \<open>The SQL backend and the run state\<close>

text \<open>
  A row of a result set maps column names to values; reading a column that the row does
  not have raises.
\<close>

type_synonym Row = "(string \<times> string) list"

definition getattr :: "Row \<Rightarrow> string \<Rightarrow> error + string" where
  "getattr r col = (case map_of r col of None \<Rightarrow> Inl (AttributeError col) | Some v \<Rightarrow> Inr v)"

definition getitem :: "Row \<Rightarrow> string \<Rightarrow> error + string" where
  "getitem r col = (case map_of r col of None \<Rightarrow> Inl (KeyError col) | Some v \<Rightarrow> Inr v)"

datatype call = Execute string | Fetch string

text \<open>
  The backend is an external collaborator: what a statement does is its answer, which may
  depend on every call made before. \<open>on_execute\<close> answers \<open>Some e\<close> when the statement
  raises \<open>e\<close>; \<open>on_fetch\<close> answers the rows or the exception.
\<close>

record SqlBackend =
  on_execute :: "call list \<Rightarrow> string \<Rightarrow> error option"
  on_fetch :: "call list \<Rightarrow> string \<Rightarrow> error + Row list"

datatype level = DEBUG | INFO | WARNING | ERROR

record world =
  calls :: "call list"
  logs :: "(level \<times> string) list"
  printed :: "string list"

definition execute :: "SqlBackend \<Rightarrow> string \<Rightarrow> world \<Rightarrow> (error + unit) \<times> world" where
  "execute b q w =
     (let w' = w\<lparr>calls := calls w @ [Execute q]\<rparr> in
      case on_execute b (calls w) q of
        Some e \<Rightarrow> (Inl e, w')
      | None \<Rightarrow> (Inr (), w'))"

definition fetch :: "SqlBackend \<Rightarrow> string \<Rightarrow> world \<Rightarrow> (error + Row list) \<times> world" where
  "fetch b q w =
     (let w' = w\<lparr>calls := calls w @ [Fetch q]\<rparr> in
      case on_fetch b (calls w) q of
        Inl e \<Rightarrow> (Inl e, w')
      | Inr rows \<Rightarrow> (Inr rows, w'))"

definition logger :: "level \<Rightarrow> string \<Rightarrow> world \<Rightarrow> world" where
  "logger l msg w = w\<lparr>logs := logs w @ [(l, msg)]\<rparr>"

definition print :: "string \<Rightarrow> world \<Rightarrow> world" where
  "print line w = w\<lparr>printed := printed w @ [line]\<rparr>"

subsection \<open>The workspace client\<close>

record TableInfo =
  ti_name :: "string option"
  full_name :: "string option"
  properties :: "(string \<times> string) list option"

record SchemaInfo =
  catalog_name :: string
  schema_name :: string

text \<open>
  The listings of the remote catalog service, as the client returns them:
  \<^verbatim>\<open>catalogs.list()\<close> (the catalogs' names), \<^verbatim>\<open>schemas.list(catalog_name)\<close>,
  \<^verbatim>\<open>tables.list(catalog_name, schema_name)\<close> and \<^verbatim>\<open>get_workspace_id()\<close>.
\<close>

record WorkspaceClient =
  catalogs_list :: "string list"
  schemas_list :: "string \<Rightarrow> SchemaInfo list"
  tables_list :: "string \<Rightarrow> string \<Rightarrow> TableInfo list"
  get_workspace_id :: int

subsection \<open>Running tasks\<close>

text \<open>
  A step of the program takes the run state and returns a value or an exception, with the
  state it leaves behind: the statements issued before an exception stay issued.
\<close>

type_synonym 'a task = "world \<Rightarrow> (error + 'a) \<times> world"

definition and_then :: "(error + 'a) \<times> world \<Rightarrow> ('a \<Rightarrow> 'b task) \<Rightarrow> (error + 'b) \<times> world" where
  "and_then r f = (case r of (Inl e, w) \<Rightarrow> (Inl e, w) | (Inr x, w) \<Rightarrow> f x w)"

text \<open>
  Modelled from the spec: \<^verbatim>\<open>Threads.strict\<close> of the blueprint library, which is not
  among the sources here. The spec has the runner execute every task, a failing task
  neither cancelling nor affecting its siblings, and an aggregate failure raised only
  after every task has completed. The tasks run here one after the other, in the order
  of the list: one schedule of the concurrent runner, whose other schedules interleave
  the statements of the tasks. Nothing below is stated about the order between tasks:
  what is proved of a run through the runner is of tasks that issue no statement, and
  what is proved of tasks that issue statements is of the list of tasks handed over and
  of each task by itself.
\<close>

fun gather :: "'a task list \<Rightarrow> world \<Rightarrow> ('a list \<times> error list) \<times> world" where
  "gather [] w = (([], []), w)"
| "gather (t # ts) w =
     (case t w of
        (Inl e, w1) \<Rightarrow> (case gather ts w1 of ((rs, es), w2) \<Rightarrow> ((rs, e # es), w2))
      | (Inr r, w1) \<Rightarrow> (case gather ts w1 of ((rs, es), w2) \<Rightarrow> ((r # rs, es), w2)))"

definition Threads_strict :: "string \<Rightarrow> 'a task list \<Rightarrow> world \<Rightarrow> (error + 'a list) \<times> world" where
  "Threads_strict title tasks w =
     (case gather tasks w of
        ((rs, es), w') \<Rightarrow>
          (case es of
             [] \<Rightarrow> (Inr rs, w')
           | [e] \<Rightarrow> (Inl e, w')
           | _ \<Rightarrow> (Inl (ManyError es), w')))"

section \<open>MigrationStatusRefresher\<close>

text \<open>
  The object holds the workspace client, the SQL backend and the tables crawler; of the
  crawler only the result of \<^verbatim>\<open>snapshot()\<close> is used. \<open>escape_sql_identifier\<close> is a
  helper of \<^verbatim>\<open>framework/utils.py\<close>, not among the sources here: it is carried as a
  parameter, and so is \<open>msr_lower\<close>, the \<^verbatim>\<open>str.lower()\<close> of the runtime.
\<close>

record MigrationStatusRefresher =
  msr_ws :: WorkspaceClient
  msr_backend :: SqlBackend
  table_crawler :: "Table list"
  escape_sql_identifier :: "string \<Rightarrow> string"
  msr_lower :: "string \<Rightarrow> string"

definition iter_schemas :: "MigrationStatusRefresher \<Rightarrow> SchemaInfo list" where
  "iter_schemas self = concat (map (schemas_list (msr_ws self)) (catalogs_list (msr_ws self)))"

text \<open>
  The body of the inner loop of \<^verbatim>\<open>get_seen_tables\<close>, on the dictionary built so far.
  \<^verbatim>\<open>not table.properties\<close> holds for \<^verbatim>\<open>None\<close> and for the empty dictionary,
  \<^verbatim>\<open>not table.full_name\<close> for \<^verbatim>\<open>None\<close> and for the empty string.
\<close>

definition seen_tables_step ::
  "MigrationStatusRefresher \<Rightarrow> SchemaInfo \<Rightarrow> TableInfo \<Rightarrow> (string \<times> string) list \<times> world
     \<Rightarrow> (string \<times> string) list \<times> world" where
  "seen_tables_step self schema table sw =
     (case sw of (seen_tables, w) \<Rightarrow>
        (case properties table of
           None \<Rightarrow> (seen_tables, w)
         | Some props \<Rightarrow>
             if props = [] then (seen_tables, w)
             else (case map_of props ''upgraded_from'' of
                     None \<Rightarrow> (seen_tables, w)
                   | Some upgraded_from \<Rightarrow>
                       (let skipped =
                              (seen_tables,
                               logger WARNING
                                 (''The table '' @ str_opt (ti_name table) @ '' in ''
                                    @ schema_name schema @ '' has no full name'') w)
                        in case full_name table of
                             None \<Rightarrow> skipped
                           | Some fname \<Rightarrow>
                               if fname = [] then skipped
                               else (AList.update (msr_lower self fname)
                                       (msr_lower self upgraded_from) seen_tables,
                                     w)))))"

definition get_seen_tables :: "MigrationStatusRefresher \<Rightarrow> world \<Rightarrow> (string \<times> string) list \<times> world" where
  "get_seen_tables self w =
     fold (\<lambda>schema.
             fold (seen_tables_step self schema)
               (tables_list (msr_ws self) (catalog_name schema) (schema_name schema)))
       (iter_schemas self) ([], w)"

fun is_upgraded_loop :: "Row list \<Rightarrow> error + bool" where
  "is_upgraded_loop [] = Inr False"
| "is_upgraded_loop (value # result) =
     (case getitem value ''key'' of
        Inl e \<Rightarrow> Inl e
      | Inr k \<Rightarrow> if k = ''upgraded_to'' then Inr True else is_upgraded_loop result)"

definition is_upgraded :: "MigrationStatusRefresher \<Rightarrow> string \<Rightarrow> string \<Rightarrow> bool task" where
  "is_upgraded self schema table w =
     and_then
       (fetch (msr_backend self)
          (''SHOW TBLPROPERTIES '' @ escape_sql_identifier self (schema @ ''.'' @ table)) w)
       (\<lambda>result w1.
          case is_upgraded_loop result of
            Inl e \<Rightarrow> (Inl e, w1)
          | Inr upgraded \<Rightarrow>
              if upgraded
              then (Inr True, logger INFO (schema @ ''.'' @ table @ '' is set as upgraded'') w1)
              else (Inr False, logger INFO (schema @ ''.'' @ table @ '' is set as not upgraded'') w1))"

text \<open>The comprehension \<^verbatim>\<open>{v: k for k, v in d.items()}\<close>.\<close>

definition reverse_dict :: "(string \<times> string) list \<Rightarrow> (string \<times> string) list" where
  "reverse_dict d = fold (\<lambda>(k, v). AList.update v k) d []"

text \<open>
  One round of the loop of \<^verbatim>\<open>_crawl\<close>: the status record of one table. The point
  check runs only for a table whose key is in the reversed index, as the \<^verbatim>\<open>and\<close> of
  the source does.
\<close>

definition crawl_table ::
  "MigrationStatusRefresher \<Rightarrow> (string \<times> string) list \<Rightarrow> string \<Rightarrow> Table \<Rightarrow> MigrationStatus task" where
  "crawl_table self reverse_seen timestamp table w =
     (let table_migration_status =
            \<lparr>src_schema = database table, src_table = name table, dst_catalog = None,
             dst_schema = None, dst_table = None, update_ts = Some timestamp\<rparr>
      in case map_of reverse_seen (key table) of
           None \<Rightarrow> (Inr table_migration_status, w)
         | Some target_table \<Rightarrow>
             and_then (is_upgraded self (database table) (name table) w)
               (\<lambda>upgraded w1.
                  if upgraded \<and> length (split CHR ''.'' target_table) = 3
                  then (Inr (table_migration_status
                               \<lparr>dst_catalog := Some (split CHR ''.'' target_table ! 0),
                                dst_schema := Some (split CHR ''.'' target_table ! 1),
                                dst_table := Some (split CHR ''.'' target_table ! 2)\<rparr>), w1)
                  else (Inr table_migration_status, w1)))"

fun crawl_loop ::
  "MigrationStatusRefresher \<Rightarrow> (string \<times> string) list \<Rightarrow> string \<Rightarrow> Table list \<Rightarrow> MigrationStatus list task" where
  "crawl_loop self reverse_seen timestamp [] w = (Inr [], w)"
| "crawl_loop self reverse_seen timestamp (table # all_tables) w =
     and_then (crawl_table self reverse_seen timestamp table w)
       (\<lambda>status w1.
          and_then (crawl_loop self reverse_seen timestamp all_tables w1)
            (\<lambda>statuses w2. (Inr (status # statuses), w2)))"

text \<open>
  \<^verbatim>\<open>_crawl\<close>, read to its end by its caller; \<open>timestamp\<close> is the text of the clock's
  value at the call.
\<close>

definition crawl :: "MigrationStatusRefresher \<Rightarrow> string \<Rightarrow> MigrationStatus list task" where
  "crawl self timestamp w =
     (let all_tables = table_crawler self in
      case get_seen_tables self w of
        (seen, w1) \<Rightarrow> crawl_loop self (reverse_dict seen) timestamp all_tables w1)"

section \<open>TablesMigrate\<close>

text \<open>
  Of the tables crawler and of the table mapping, the object uses one result each:
  \<open>tc\<close> is what \<^verbatim>\<open>self._tc.snapshot()\<close> returns and \<open>tm\<close> what
  \<^verbatim>\<open>self._tm.get_tables_to_migrate(self._tc)\<close> returns. An operation that assigns
  \<^verbatim>\<open>self._seen_tables\<close> returns the object as it has become. \<open>str_lower\<close> is the
  \<^verbatim>\<open>str.lower()\<close> of the runtime, carried as a parameter.
\<close>

record TablesMigrate =
  tc :: "Table list"
  backend :: SqlBackend
  ws :: WorkspaceClient
  tm :: "TableToMigrate list"
  migration_status_refresher :: MigrationStatusRefresher
  seen_tables :: "(string \<times> string) list"
  str_lower :: "string \<Rightarrow> string"

definition init_seen_tables :: "TablesMigrate \<Rightarrow> world \<Rightarrow> TablesMigrate \<times> world" where
  "init_seen_tables self w =
     (case get_seen_tables (migration_status_refresher self) w of
        (seen, w1) \<Rightarrow> (self\<lparr>seen_tables := seen\<rparr>, w1))"

definition table_already_upgraded :: "TablesMigrate \<Rightarrow> string \<Rightarrow> bool" where
  "table_already_upgraded self target = (target \<in> set (map fst (seen_tables self)))"

definition migrate_external_table :: "TablesMigrate \<Rightarrow> Table \<Rightarrow> Rule \<Rightarrow> bool task" where
  "migrate_external_table self src_tbl rule w =
     (let target_table_key = as_uc_table_key rule;
          table_migrate_sql = sql_migrate_external src_tbl target_table_key;
          w0 = logger DEBUG
                 (''Migrating external table '' @ key src_tbl @ '' to using SQL query: ''
                    @ table_migrate_sql) w
      in and_then (fetch (backend self) table_migrate_sql w0)
           (\<lambda>rows w1.
              case rows of
                [] \<Rightarrow> (Inl StopIteration, w1)
              | sync_result # _ \<Rightarrow>
                  (case getattr sync_result ''status_code'' of
                     Inl e \<Rightarrow> (Inl e, w1)
                   | Inr status_code \<Rightarrow>
                       if status_code \<noteq> ''SUCCESS''
                       then (case getattr sync_result ''description'' of
                               Inl e \<Rightarrow> (Inl e, w1)
                             | Inr description \<Rightarrow>
                                 (Inr False,
                                  logger WARNING
                                    (''SYNC command failed to migrate '' @ key src_tbl @ '' to ''
                                       @ target_table_key @ ''. Status code: '' @ status_code
                                       @ ''. Description: '' @ description) w1))
                       else and_then
                              (execute (backend self)
                                 (sql_alter_from src_tbl (as_uc_table_key rule)
                                    (get_workspace_id (ws self))) w1)
                              (\<lambda>_ w2. (Inr True, w2)))))"

definition migrate_dbfs_root_table :: "TablesMigrate \<Rightarrow> Table \<Rightarrow> Rule \<Rightarrow> bool task" where
  "migrate_dbfs_root_table self src_tbl rule w =
     (let target_table_key = as_uc_table_key rule;
          table_migrate_sql = sql_migrate_dbfs src_tbl target_table_key;
          w0 = logger DEBUG
                 (''Migrating managed table '' @ key src_tbl @ '' to using SQL query: ''
                    @ table_migrate_sql) w
      in and_then (execute (backend self) table_migrate_sql w0)
           (\<lambda>_ w1.
              and_then (execute (backend self) (sql_alter_to src_tbl (as_uc_table_key rule)) w1)
                (\<lambda>_ w2.
                   and_then
                     (execute (backend self)
                        (sql_alter_from src_tbl (as_uc_table_key rule)
                           (get_workspace_id (ws self))) w2)
                     (\<lambda>_ w3. (Inr True, w3)))))"

definition migrate_view :: "TablesMigrate \<Rightarrow> Table \<Rightarrow> Rule \<Rightarrow> bool task" where
  "migrate_view self src_tbl rule w =
     (let target_table_key = as_uc_table_key rule;
          table_migrate_sql = sql_migrate_view src_tbl target_table_key;
          w0 = logger DEBUG
                 (''Migrating view '' @ key src_tbl @ '' to using SQL query: ''
                    @ table_migrate_sql) w
      in and_then (execute (backend self) table_migrate_sql w0)
           (\<lambda>_ w1.
              and_then (execute (backend self) (sql_alter_to src_tbl (as_uc_table_key rule)) w1)
                (\<lambda>_ w2.
                   and_then
                     (execute (backend self)
                        (sql_alter_from src_tbl (as_uc_table_key rule)
                           (get_workspace_id (ws self))) w2)
                     (\<lambda>_ w3. (Inr True, w3)))))"

definition migrate_table :: "TablesMigrate \<Rightarrow> Table \<Rightarrow> Rule \<Rightarrow> bool task" where
  "migrate_table self src_tbl rule w =
     (if table_already_upgraded self (as_uc_table_key rule)
      then (Inr True,
            logger INFO
              (''Table '' @ key src_tbl @ '' already upgraded to '' @ as_uc_table_key rule) w)
      else if what src_tbl = DBFS_ROOT_DELTA then migrate_dbfs_root_table self src_tbl rule w
      else if what src_tbl = EXTERNAL_SYNC then migrate_external_table self src_tbl rule w
      else if what src_tbl = VIEW then migrate_view self src_tbl rule w
      else (Inr True,
            logger INFO (''Table '' @ key src_tbl @ '' is not supported for migration'') w))"

text \<open>
  \<^verbatim>\<open>migrate_tables\<close>: one task for each pair whose classification passes the filter
  (\<^verbatim>\<open>not what\<close> holds for \<^verbatim>\<open>None\<close> only: a member of an enum is never false).
\<close>

definition migrate_tables ::
  "TablesMigrate \<Rightarrow> What option \<Rightarrow> world \<Rightarrow> (error + unit) \<times> TablesMigrate \<times> world" where
  "migrate_tables self what_filter w =
     (case init_seen_tables self w of
        (self1, w1) \<Rightarrow>
          (let tables_to_migrate = tm self1;
               tasks = map (\<lambda>table. migrate_table self1 (t_src table) (t_rule table))
                         (filter (\<lambda>table. what_filter = None \<or> Some (what (t_src table)) = what_filter)
                            tables_to_migrate)
           in case Threads_strict ''migrate tables'' tasks w1 of
                (Inl e, w2) \<Rightarrow> (Inl e, self1, w2)
              | (Inr _, w2) \<Rightarrow> (Inr (), self1, w2)))"

subsection \<open>Revert\<close>

text \<open>
  The two filters as the first two lines of \<^verbatim>\<open>_get_tables_to_revert\<close> leave them:
  \<^verbatim>\<open>None\<close> and the empty string become \<^verbatim>\<open>None\<close>, any other string its lower case.
\<close>

definition lower_filter :: "TablesMigrate \<Rightarrow> string option \<Rightarrow> string option" where
  "lower_filter self x =
     (case x of None \<Rightarrow> None | Some s \<Rightarrow> if s = [] then None else Some (str_lower self s))"

fun tables_to_revert_loop ::
  "TablesMigrate \<Rightarrow> string option \<Rightarrow> string option \<Rightarrow> Table list \<Rightarrow> Table list" where
  "tables_to_revert_loop self schema table [] = []"
| "tables_to_revert_loop self schema table (cur_table # rest) =
     (if schema \<noteq> None \<and> Some (database cur_table) \<noteq> schema
      then tables_to_revert_loop self schema table rest
      else if table \<noteq> None \<and> Some (name cur_table) \<noteq> table
      then tables_to_revert_loop self schema table rest
      else if key cur_table \<in> set (map snd (seen_tables self))
      then cur_table # tables_to_revert_loop self schema table rest
      else tables_to_revert_loop self schema table rest)"

definition get_tables_to_revert ::
  "TablesMigrate \<Rightarrow> string option \<Rightarrow> string option \<Rightarrow> world \<Rightarrow> Table list \<times> world" where
  "get_tables_to_revert self schema0 table0 w =
     (let schema = lower_filter self schema0;
          table = lower_filter self table0;
          w1 = (if table \<noteq> None \<and> schema = None
                then logger ERROR ''Cannot accept 'Table' parameter without 'Schema' parameter'' w
                else w)
      in (tables_to_revert_loop self schema table (tc self), w1))"

definition revert_migrated_table :: "TablesMigrate \<Rightarrow> Table \<Rightarrow> string \<Rightarrow> unit task" where
  "revert_migrated_table self table target_table_key w =
     (let w0 = logger INFO
                 (''Reverting '' @ object_type table @ '' table '' @ database table @ ''.''
                    @ name table @ '' upgraded_to '' @ str_opt (upgraded_to table)) w
      in and_then (execute (backend self) (sql_unset_upgraded_to table) w0)
           (\<lambda>_. execute (backend self)
                   (''DROP '' @ kind table @ '' IF EXISTS '' @ target_table_key)))"

text \<open>
  The loop of \<^verbatim>\<open>revert_migrated_tables\<close> that collects the tasks. Reading
  \<^verbatim>\<open>reverse_seen[upgraded_table.key]\<close> raises when the key is missing.
\<close>

fun revert_tasks ::
  "TablesMigrate \<Rightarrow> (string \<times> string) list \<Rightarrow> bool \<Rightarrow> Table list \<Rightarrow> unit task list task" where
  "revert_tasks self reverse_seen delete_managed [] w = (Inr [], w)"
| "revert_tasks self reverse_seen delete_managed (upgraded_table # rest) w =
     (if kind upgraded_table = ''VIEW'' \<or> object_type upgraded_table = ''EXTERNAL'' \<or> delete_managed
      then (case map_of reverse_seen (key upgraded_table) of
              None \<Rightarrow> (Inl (KeyError (key upgraded_table)), w)
            | Some target_table_key \<Rightarrow>
                and_then (revert_tasks self reverse_seen delete_managed rest w)
                  (\<lambda>tasks w1.
                     (Inr (revert_migrated_table self upgraded_table target_table_key # tasks), w1)))
      else revert_tasks self reverse_seen delete_managed rest
             (logger INFO
                (''Skipping '' @ object_type upgraded_table @ '' Table ''
                   @ database upgraded_table @ ''.'' @ name upgraded_table @ '' upgraded_to ''
                   @ str_opt (upgraded_to upgraded_table)) w))"

definition revert_migrated_tables ::
  "TablesMigrate \<Rightarrow> string option \<Rightarrow> string option \<Rightarrow> bool \<Rightarrow> world
     \<Rightarrow> (error + unit) \<times> TablesMigrate \<times> world" where
  "revert_migrated_tables self schema table delete_managed w =
     (case init_seen_tables self w of
        (self1, w1) \<Rightarrow>
          (case get_tables_to_revert self1 schema table w1 of
             (upgraded_tables, w2) \<Rightarrow>
               (let reverse_seen = reverse_dict (seen_tables self1) in
                case revert_tasks self1 reverse_seen delete_managed upgraded_tables w2 of
                  (Inl e, w3) \<Rightarrow> (Inl e, self1, w3)
                | (Inr tasks, w3) \<Rightarrow>
                    (case Threads_strict ''revert migrated tables'' tasks w3 of
                       (Inl e, w4) \<Rightarrow> (Inl e, self1, w4)
                     | (Inr _, w4) \<Rightarrow> (Inr (), self1, w4)))))"

subsection \<open>The revert report\<close>

text \<open>
  \<^verbatim>\<open>table_by_database\<close> is a \<^verbatim>\<open>defaultdict(list)\<close>: a database met for the first
  time enters the dictionary with the empty list.
\<close>

definition group_by_database :: "Table list \<Rightarrow> (string \<times> Table list) list" where
  "group_by_database upgraded_tables =
     fold (\<lambda>cur_table table_by_database.
             AList.update (database cur_table)
               ((case map_of table_by_database (database cur_table) of
                   None \<Rightarrow> []
                 | Some tables \<Rightarrow> tables) @ [cur_table])
               table_by_database)
       upgraded_tables []"

definition revert_count_step :: "Table \<Rightarrow> (What \<times> nat) list \<Rightarrow> (What \<times> nat) list" where
  "revert_count_step current_table counts =
     (if upgraded_to current_table \<noteq> None
      then (let count = (case map_of counts (what current_table) of None \<Rightarrow> 0 | Some c \<Rightarrow> c)
            in AList.update (what current_table) (count + 1) counts)
      else counts)"

definition get_revert_count ::
  "TablesMigrate \<Rightarrow> string option \<Rightarrow> string option \<Rightarrow> world
     \<Rightarrow> MigrationCount list \<times> TablesMigrate \<times> world" where
  "get_revert_count self schema table w =
     (case init_seen_tables self w of
        (self1, w1) \<Rightarrow>
          (case get_tables_to_revert self1 schema table w1 of
             (upgraded_tables, w2) \<Rightarrow>
               (map (\<lambda>(cur_database, tables).
                       \<lparr>mc_database = cur_database,
                        what_count = fold revert_count_step tables []\<rparr>)
                  (group_by_database upgraded_tables),
                self1, w2)))"

text \<open>The names and the order of the members of \<open>What\<close>, as \<^verbatim>\<open>list(What)\<close> gives them.\<close>

definition What_name :: "What \<Rightarrow> string" where
  "What_name x =
     (case x of
        DBFS_ROOT_DELTA \<Rightarrow> ''DBFS_ROOT_DELTA''
      | EXTERNAL_SYNC \<Rightarrow> ''EXTERNAL_SYNC''
      | VIEW \<Rightarrow> ''VIEW''
      | NOT_SUPPORTED \<Rightarrow> ''NOT_SUPPORTED'')"

definition list_What :: "What list" where
  "list_What = [DBFS_ROOT_DELTA, EXTERNAL_SYNC, VIEW, NOT_SUPPORTED]"

text \<open>The format specifications \<^verbatim>\<open>:<n\<close> of a string and \<^verbatim>\<open>:n\<close> of a number.\<close>

definition ljust :: "nat \<Rightarrow> string \<Rightarrow> string" where
  "ljust n s = s @ replicate (n - length s) CHR '' ''"

definition rjust :: "nat \<Rightarrow> string \<Rightarrow> string" where
  "rjust n s = replicate (n - length s) CHR '' '' @ s"

fun str_nat :: "nat \<Rightarrow> string" where
  "str_nat n =
     (if n < 10 then [char_of (48 + n)] else str_nat (n div 10) @ [char_of (48 + n mod 10)])"

declare str_nat.simps [simp del]

definition print_revert_report ::
  "TablesMigrate \<Rightarrow> bool \<Rightarrow> world \<Rightarrow> bool \<times> TablesMigrate \<times> world" where
  "print_revert_report self delete_managed w =
     (case get_revert_count self None None w of
        (migrated_count, self1, w1) \<Rightarrow>
          if migrated_count = []
          then (False, self1, logger INFO ''No migrated tables were found.'' w1)
          else
            (let names = map (\<lambda>what. split CHR ''_'' (What_name what)) list_What;
                 headers = fold (\<lambda>parts h. max h (length parts)) names 1;
                 table_header =
                   fold (\<lambda>parts acc. acc @ '' '' @ ljust 10 (parts ! 0) @ '' |'') names
                     (''Database'' @ replicate 12 CHR '' '' @ ''|'');
                 table_sub_header =
                   (\<lambda>header.
                      fold (\<lambda>parts acc.
                              if length parts - 1 < header
                              then acc @ replicate 12 CHR '' '' @ ''|''
                              else acc @ '' '' @ ljust 10 (parts ! header) @ '' |'')
                        names (replicate 20 CHR '' '' @ ''|''));
                 separator = replicate (22 + 13 * length list_What) CHR ''='';
                 table_row =
                   (\<lambda>count.
                      fold (\<lambda>what acc.
                              acc @ '' ''
                                @ rjust 10
                                    (str_nat (case map_of (what_count count) what of
                                                None \<Rightarrow> 0
                                              | Some c \<Rightarrow> c))
                                @ '' |'')
                        list_What (ljust 20 (mc_database count) @ ''|''));
                 output =
                   [''The following is the count of migrated tables and views found in scope:'',
                    table_header]
                   @ map table_sub_header [1..<headers]
                   @ [separator]
                   @ map table_row migrated_count
                   @ [separator,
                      ''The following actions will be performed'',
                      ''- Migrated External Tables and Views (targets) will be deleted'']
                   @ (if delete_managed
                      then [''- Migrated DBFS Root Tables will be deleted'']
                      else [''- Migrated DBFS Root Tables will be left intact'',
                            ''To revert and delete Migrated Tables, add --delete_managed true flag to the command''])
             in (True, self1, fold print output w1)))"

section \<open>Notions used in the statements\<close>

text \<open>
  Every destination object that the workspace lists, with the schema under which it is
  listed, in the order in which \<^verbatim>\<open>get_seen_tables\<close> visits them.
\<close>

definition listed_tables :: "MigrationStatusRefresher \<Rightarrow> (SchemaInfo \<times> TableInfo) list" where
  "listed_tables self =
     concat (map (\<lambda>schema. map (Pair schema)
                   (tables_list (msr_ws self) (catalog_name schema) (schema_name schema)))
               (iter_schemas self))"

text \<open>
  The entry that one listed object contributes to the index, if any: the object carries the
  property \<open>upgraded_from\<close> and has a full name that is not empty.
\<close>

definition index_entry :: "MigrationStatusRefresher \<Rightarrow> TableInfo \<Rightarrow> (string \<times> string) option" where
  "index_entry self table =
     (case properties table of
        None \<Rightarrow> None
      | Some props \<Rightarrow>
          (case map_of props ''upgraded_from'' of
             None \<Rightarrow> None
           | Some source \<Rightarrow>
               (case full_name table of
                  None \<Rightarrow> None
                | Some fname \<Rightarrow>
                    if fname = [] then None
                    else Some (msr_lower self fname, msr_lower self source))))"

text \<open>
  The candidates of a revert: what \<^verbatim>\<open>_get_tables_to_revert\<close> returns on the index loaded
  at the start of the run.
\<close>

definition revert_candidates ::
  "TablesMigrate \<Rightarrow> string option \<Rightarrow> string option \<Rightarrow> world \<Rightarrow> Table list" where
  "revert_candidates self schema table w =
     (case init_seen_tables self w of
        (self1, w1) \<Rightarrow> fst (get_tables_to_revert self1 schema table w1))"

text \<open>
  The three values that \<^verbatim>\<open>revert_migrated_tables\<close> has in hand when its loop over the
  candidates starts, and the loop itself as the operation runs it: the object with the
  index just loaded, the run state after the selection of the candidates, and the list
  of tasks that the loop collects for the task runner.
\<close>

definition revert_self :: "TablesMigrate \<Rightarrow> world \<Rightarrow> TablesMigrate" where
  "revert_self self w = fst (init_seen_tables self w)"

definition revert_world :: "TablesMigrate \<Rightarrow> string option \<Rightarrow> string option \<Rightarrow> world \<Rightarrow> world" where
  "revert_world self schema table w =
     snd (get_tables_to_revert (revert_self self w) schema table (snd (init_seen_tables self w)))"

definition revert_loop ::
  "TablesMigrate \<Rightarrow> string option \<Rightarrow> string option \<Rightarrow> bool \<Rightarrow> world
     \<Rightarrow> (error + unit task list) \<times> world" where
  "revert_loop self schema table delete_managed w =
     revert_tasks (revert_self self w) (reverse_dict (seen_tables (revert_self self w)))
       delete_managed (revert_candidates self schema table w) (revert_world self schema table w)"

text \<open>
  The run state in which each round of the loop of \<^verbatim>\<open>_crawl\<close> starts, one for each table
  of the inventory: the state in which the point check of that table runs, if it runs.
\<close>

fun crawl_worlds ::
  "MigrationStatusRefresher \<Rightarrow> (string \<times> string) list \<Rightarrow> string \<Rightarrow> Table list \<Rightarrow> world \<Rightarrow> world list" where
  "crawl_worlds self reverse_seen timestamp [] w = []"
| "crawl_worlds self reverse_seen timestamp (table # all_tables) w =
     w # crawl_worlds self reverse_seen timestamp all_tables
           (snd (crawl_table self reverse_seen timestamp table w))"

section \<open>Example objects\<close>

text \<open>
  A small estate for the concrete instances below: the source schema \<open>sales\<close> with an
  external table, a managed table and a table that cannot be migrated, and the
  destination schema \<open>main.sales\<close>. The SQL text of the example tables is a stand-in
  for what \<^verbatim>\<open>tables.py\<close> builds.
\<close>

definition example_table ::
  "string \<Rightarrow> string \<Rightarrow> string \<Rightarrow> string \<Rightarrow> What \<Rightarrow> string option \<Rightarrow> Table" where
  "example_table db nm knd otype wh up =
     \<lparr>database = db, name = nm, key = ''hive_metastore.'' @ db @ ''.'' @ nm, kind = knd,
      object_type = otype, what = wh, upgraded_to = up,
      sql_migrate_external = (\<lambda>target. ''SYNC TABLE '' @ target @ '' FROM '' @ db @ ''.'' @ nm),
      sql_migrate_dbfs = (\<lambda>target. ''CREATE TABLE '' @ target @ '' DEEP CLONE '' @ db @ ''.'' @ nm),
      sql_migrate_view = (\<lambda>target. ''CREATE VIEW '' @ target),
      sql_alter_to = (\<lambda>target. ''ALTER '' @ db @ ''.'' @ nm @ '' SET upgraded_to''),
      sql_alter_from = (\<lambda>target ws_id. ''ALTER '' @ target @ '' SET upgraded_from''),
      sql_unset_upgraded_to = ''ALTER '' @ db @ ''.'' @ nm @ '' UNSET upgraded_to''\<rparr>"

definition sales_orders :: Table where
  "sales_orders = example_table ''sales'' ''orders'' ''TABLE'' ''EXTERNAL'' EXTERNAL_SYNC None"

definition sales_stock :: Table where
  "sales_stock =
     example_table ''sales'' ''stock'' ''TABLE'' ''MANAGED'' DBFS_ROOT_DELTA (Some ''main.sales.stock'')"

definition sales_legacy :: Table where
  "sales_legacy = example_table ''sales'' ''legacy'' ''TABLE'' ''MANAGED'' NOT_SUPPORTED None"

definition rule_to :: "string \<Rightarrow> Rule" where
  "rule_to target = \<lparr>as_uc_table_key = target\<rparr>"

definition empty_world :: world where
  "empty_world = \<lparr>calls = [], logs = [], printed = []\<rparr>"

definition tagged_table :: "string \<Rightarrow> string \<Rightarrow> TableInfo" where
  "tagged_table fname source =
     \<lparr>ti_name = Some fname, full_name = Some fname, properties = Some [(''upgraded_from'', source)]\<rparr>"

definition example_ws :: "TableInfo list \<Rightarrow> WorkspaceClient" where
  "example_ws tables =
     \<lparr>catalogs_list = [''main''],
      schemas_list = (\<lambda>c. [\<lparr>catalog_name = c, schema_name = ''sales''\<rparr>]),
      tables_list = (\<lambda>c s. tables),
      get_workspace_id = 7\<rparr>"

text \<open>
  A backend on which no statement raises and every fetch answers \<open>rows\<close>, and a
  backend on which the statements listed in \<open>failing\<close> raise and a fetch of any other
  statement answers no row.
\<close>

definition answering :: "Row list \<Rightarrow> SqlBackend" where
  "answering rows = \<lparr>on_execute = (\<lambda>h q. None), on_fetch = (\<lambda>h q. Inr rows)\<rparr>"

definition failing_on :: "string list \<Rightarrow> SqlBackend" where
  "failing_on failing =
     \<lparr>on_execute = (\<lambda>h q. if q \<in> set failing then Some (BackendError q) else None),
      on_fetch = (\<lambda>h q. if q \<in> set failing then Inl (BackendError q) else Inr [])\<rparr>"

definition example_refresher ::
  "SqlBackend \<Rightarrow> TableInfo list \<Rightarrow> Table list \<Rightarrow> MigrationStatusRefresher" where
  "example_refresher b tables inventory =
     \<lparr>msr_ws = example_ws tables, msr_backend = b, table_crawler = inventory,
      escape_sql_identifier = (\<lambda>s. s), msr_lower = ascii_lower\<rparr>"

definition example_migrate ::
  "SqlBackend \<Rightarrow> TableInfo list \<Rightarrow> Table list \<Rightarrow> TableToMigrate list \<Rightarrow> (string \<times> string) list
     \<Rightarrow> TablesMigrate" where
  "example_migrate b tables inventory pairs seen =
     \<lparr>tc = inventory, backend = b, ws = example_ws tables, tm = pairs,
      migration_status_refresher = example_refresher b tables inventory,
      seen_tables = seen, str_lower = ascii_lower\<rparr>"

text \<open>
  A listing of three destination objects: one tagged and named in mixed case, one tagged
  without a full name, one with no properties.
\<close>

definition example_listing :: "TableInfo list" where
  "example_listing =
     [tagged_table ''Main.Sales.Orders'' ''Hive_Metastore.Sales.Orders'',
      \<lparr>ti_name = Some ''ghost'', full_name = None,
       properties = Some [(''upgraded_from'', ''hive_metastore.sales.ghost'')]\<rparr>,
      \<lparr>ti_name = Some ''plain'', full_name = Some ''main.sales.plain'', properties = None\<rparr>]"

text \<open>
  The estate with both example tables migrated: the external table \<open>sales.orders\<close> and
  the managed table \<open>sales.stock\<close>, on a backend where no statement raises.
\<close>

definition example_estate :: TablesMigrate where
  "example_estate =
     example_migrate (answering [])
       [tagged_table ''main.sales.orders'' ''hive_metastore.sales.orders'',
        tagged_table ''main.sales.stock'' ''hive_metastore.sales.stock'']
       [sales_orders, sales_stock] [] []"

text \<open>
  A refresher for the crawl: the inventory has \<open>sales.orders\<close> and \<open>sales.legacy\<close>, the
  one destination object listed is tagged as migrated from \<open>sales.orders\<close>, and the table
  properties that the backend answers carry \<open>upgraded_to\<close>.
\<close>

definition crawl_refresher :: "string \<Rightarrow> MigrationStatusRefresher" where
  "crawl_refresher destination =
     example_refresher (answering [[(''key'', ''upgraded_to''), (''value'', destination)]])
       [tagged_table destination ''hive_metastore.sales.orders''] [sales_orders, sales_legacy]"

text \<open>
  A backend whose answers change while the crawl runs: the first fetch finds the property
  \<open>upgraded_to\<close>, every later fetch finds no property. The refresher on it has both
  example tables in the inventory and both destinations tagged.
\<close>

definition fading :: SqlBackend where
  "fading =
     \<lparr>on_execute = (\<lambda>h q. None),
      on_fetch = (\<lambda>h q. if h = [] then Inr [[(''key'', ''upgraded_to'')]] else Inr [])\<rparr>"

definition fading_refresher :: MigrationStatusRefresher where
  "fading_refresher =
     example_refresher fading
       [tagged_table ''main.sales.orders'' ''hive_metastore.sales.orders'',
        tagged_table ''main.sales.stock'' ''hive_metastore.sales.stock'']
       [sales_orders, sales_stock]"

section \<open>Basic facts about steps and traces\<close>

lemma and_then_Inl: "and_then (Inl e, w) f = (Inl e, w)"
  by (simp add: and_then_def)

lemma and_then_Inr: "and_then (Inr x, w) f = f x w"
  by (simp add: and_then_def)

lemma calls_logger: "calls (logger l msg w) = calls w"
  by (simp add: logger_def)

lemma logs_logger: "logs (logger l msg w) = logs w @ [(l, msg)]"
  by (simp add: logger_def)

lemma execute_ok:
  "on_execute b (calls w) q = None \<Longrightarrow>
     execute b q w = (Inr (), w\<lparr>calls := calls w @ [Execute q]\<rparr>)"
  by (simp add: execute_def)

lemma execute_raises:
  "on_execute b (calls w) q = Some e \<Longrightarrow>
     execute b q w = (Inl e, w\<lparr>calls := calls w @ [Execute q]\<rparr>)"
  by (simp add: execute_def)

lemma fetch_rows:
  "on_fetch b (calls w) q = Inr rows \<Longrightarrow>
     fetch b q w = (Inr rows, w\<lparr>calls := calls w @ [Fetch q]\<rparr>)"
  by (simp add: fetch_def)

lemma fetch_raises:
  "on_fetch b (calls w) q = Inl e \<Longrightarrow>
     fetch b q w = (Inl e, w\<lparr>calls := calls w @ [Fetch q]\<rparr>)"
  by (simp add: fetch_def)

text \<open>Tasks that issue no statement and do not raise leave the trace as it was.\<close>

lemma gather_no_calls:
  "(\<And>t w. t \<in> set tasks \<Longrightarrow> calls (snd (t w)) = calls w \<and> (\<exists>r. fst (t w) = Inr r)) \<Longrightarrow>
     calls (snd (gather tasks w)) = calls w \<and> snd (fst (gather tasks w)) = []"
proof (induction tasks arbitrary: w)
  case Nil
  then show ?case by simp
next
  case (Cons t ts)
  obtain r w1 where tw: "t w = (Inr r, w1)" and c1: "calls w1 = calls w"
    using Cons.prems[of t w] by (cases "t w") auto
  have ih: "calls (snd (gather ts w1)) = calls w1 \<and> snd (fst (gather ts w1)) = []"
    using Cons.IH[of w1] Cons.prems by simp
  show ?case using tw c1 ih by (auto split: prod.splits)
qed

text \<open>Building the index reads the workspace only: it issues no statement.\<close>

lemma calls_seen_tables_step: "calls (snd (seen_tables_step self schema table sw)) = calls (snd sw)"
  by (cases sw) (simp add: seen_tables_step_def calls_logger Let_def split: option.splits)

lemma calls_get_seen_tables: "calls (snd (get_seen_tables self w)) = calls w"
proof -
  have inner: "calls (snd (fold (seen_tables_step self schema) ts sw)) = calls (snd sw)" for schema ts sw
    by (induction ts arbitrary: sw) (simp_all add: calls_seen_tables_step)
  have outer:
    "calls (snd (fold (\<lambda>schema. fold (seen_tables_step self schema) (f schema)) ss sw)) = calls (snd sw)"
    for f ss sw
    by (induction ss arbitrary: sw) (simp_all add: inner)
  show ?thesis
    unfolding get_seen_tables_def by (simp add: outer)
qed

lemma migrate_table_seen:
  "as_uc_table_key rule \<in> set (map fst (seen_tables self)) \<Longrightarrow>
     migrate_table self src_tbl rule w =
       (Inr True,
        logger INFO (''Table '' @ key src_tbl @ '' already upgraded to '' @ as_uc_table_key rule) w)"
  by (simp add: migrate_table_def table_already_upgraded_def)

section \<open>Migration of one object\<close>

text \<open>
  C1. When the destination identity of the rule (\<open>as_uc_table_key\<close>) is a key of the
  seen-tables index, \<open>migrate_table\<close> returns true and the trace of backend calls is as
  it was before: no execute and no fetch. Hence when the index loaded at the start of
  \<open>migrate_tables\<close> has the destination of every pair to migrate, the whole run issues no
  statement and raises nothing.
\<close>

theorem migrate_table_already_migrated:
  "(as_uc_table_key rule \<in> set (map fst (seen_tables self)) \<longrightarrow>
      fst (migrate_table self src_tbl rule w) = Inr True \<and>
      calls (snd (migrate_table self src_tbl rule w)) = calls w) \<and>
   ((\<forall>t \<in> set (tm self).
        as_uc_table_key (t_rule t)
          \<in> set (map fst (fst (get_seen_tables (migration_status_refresher self) w)))) \<longrightarrow>
      fst (migrate_tables self what_filter w) = Inr () \<and>
      calls (snd (snd (migrate_tables self what_filter w))) = calls w)"
proof (intro conjI impI)
  assume "as_uc_table_key rule \<in> set (map fst (seen_tables self))"
  then show "fst (migrate_table self src_tbl rule w) = Inr True"
    and "calls (snd (migrate_table self src_tbl rule w)) = calls w"
    by (simp_all add: migrate_table_seen calls_logger)
next
  assume all: "\<forall>t \<in> set (tm self).
        as_uc_table_key (t_rule t)
          \<in> set (map fst (fst (get_seen_tables (migration_status_refresher self) w)))"
  obtain seen w1 where g: "get_seen_tables (migration_status_refresher self) w = (seen, w1)"
    by (cases "get_seen_tables (migration_status_refresher self) w")
  have c1: "calls w1 = calls w"
    using calls_get_seen_tables[of "migration_status_refresher self" w] g by simp
  define self1 where "self1 = self\<lparr>seen_tables := seen\<rparr>"
  define tasks where "tasks = map (\<lambda>table. migrate_table self1 (t_src table) (t_rule table))
       (filter (\<lambda>table. what_filter = None \<or> Some (what (t_src table)) = what_filter) (tm self1))"
  have "\<And>t w. t \<in> set tasks \<Longrightarrow> calls (snd (t w)) = calls w \<and> (\<exists>r. fst (t w) = Inr r)"
    using all g by (auto simp: tasks_def self1_def migrate_table_seen calls_logger)
  then have ga: "calls (snd (gather tasks w1)) = calls w1 \<and> snd (fst (gather tasks w1)) = []"
    by (rule gather_no_calls)
  have m: "migrate_tables self what_filter w =
      (case Threads_strict ''migrate tables'' tasks w1 of
         (Inl e, w2) \<Rightarrow> (Inl e, self1, w2) | (Inr _, w2) \<Rightarrow> (Inr (), self1, w2))"
    unfolding tasks_def self1_def
    by (simp add: migrate_tables_def init_seen_tables_def g Let_def)
  show "fst (migrate_tables self what_filter w) = Inr ()"
    and "calls (snd (snd (migrate_tables self what_filter w))) = calls w"
    using ga c1 by (auto simp: m Threads_strict_def split: prod.splits list.splits sum.splits)
qed

theorem migrate_table_already_migrated_witness:
  "fst (migrate_table
          (example_migrate (failing_on [])
             [tagged_table ''main.sales.orders'' ''hive_metastore.sales.orders'']
             [sales_orders] [\<lparr>t_src = sales_orders, t_rule = rule_to ''main.sales.orders''\<rparr>]
             [(''main.sales.orders'', ''hive_metastore.sales.orders'')])
          sales_orders (rule_to ''main.sales.orders'') empty_world) = Inr True \<and>
   calls (snd (migrate_table
          (example_migrate (failing_on [])
             [tagged_table ''main.sales.orders'' ''hive_metastore.sales.orders'']
             [sales_orders] [\<lparr>t_src = sales_orders, t_rule = rule_to ''main.sales.orders''\<rparr>]
             [(''main.sales.orders'', ''hive_metastore.sales.orders'')])
          sales_orders (rule_to ''main.sales.orders'') empty_world)) = [] \<and>
   fst (migrate_tables
          (example_migrate (failing_on [])
             [tagged_table ''main.sales.orders'' ''hive_metastore.sales.orders'']
             [sales_orders] [\<lparr>t_src = sales_orders, t_rule = rule_to ''main.sales.orders''\<rparr>]
             [(''main.sales.orders'', ''hive_metastore.sales.orders'')])
          None empty_world) = Inr () \<and>
   calls (snd (snd (migrate_tables
          (example_migrate (failing_on [])
             [tagged_table ''main.sales.orders'' ''hive_metastore.sales.orders'']
             [sales_orders] [\<lparr>t_src = sales_orders, t_rule = rule_to ''main.sales.orders''\<rparr>]
             [(''main.sales.orders'', ''hive_metastore.sales.orders'')])
          None empty_world))) = []"
proof -
  let ?self = "example_migrate (failing_on [])
             [tagged_table ''main.sales.orders'' ''hive_metastore.sales.orders'']
             [sales_orders] [\<lparr>t_src = sales_orders, t_rule = rule_to ''main.sales.orders''\<rparr>]
             [(''main.sales.orders'', ''hive_metastore.sales.orders'')]"
  have seen: "fst (get_seen_tables (migration_status_refresher ?self) empty_world) =
      [(''main.sales.orders'', ''hive_metastore.sales.orders'')]"
    by (simp add: get_seen_tables_def iter_schemas_def seen_tables_step_def example_migrate_def
        example_refresher_def example_ws_def tagged_table_def ascii_lower_def ascii_lower_char_def Let_def)
  have h1: "as_uc_table_key (rule_to ''main.sales.orders'') \<in> set (map fst (seen_tables ?self))"
    by (simp add: rule_to_def example_migrate_def)
  have h2: "\<forall>t \<in> set (tm ?self).
      as_uc_table_key (t_rule t)
        \<in> set (map fst (fst (get_seen_tables (migration_status_refresher ?self) empty_world)))"
    unfolding seen by (simp add: rule_to_def example_migrate_def)
  show ?thesis
    using migrate_table_already_migrated
            [of "rule_to ''main.sales.orders''" ?self sales_orders empty_world None] h1 h2
    by (simp add: empty_world_def)
qed

text \<open>
  C2, as the code has it. Migrating an external table fetches the registration statement
  (\<open>sql_migrate_external\<close>) and reads the first row of the result. When the status code
  of that row is \<open>SUCCESS\<close>, exactly one more statement is issued: the tag statement built
  by \<open>sql_alter_from\<close> with the workspace id, the tag on the destination; the task
  returns true once that statement has run (an exception of the tag statement itself is
  the task's). The tag on the source, built by \<open>sql_alter_to\<close>, is not issued by this task.
  For any other status code no further statement is issued, a warning with the status
  code and the description is logged, and the task returns false: no exception.
\<close>

theorem migrate_external_table_status:
  assumes "on_fetch (backend self) (calls w) (sql_migrate_external src_tbl (as_uc_table_key rule))
             = Inr (sync_result # others)"
    and "map_of sync_result ''status_code'' = Some status_code"
    and "map_of sync_result ''description'' = Some description"
  shows "(status_code = ''SUCCESS'' \<longrightarrow>
            calls (snd (migrate_external_table self src_tbl rule w)) =
              calls w @ [Fetch (sql_migrate_external src_tbl (as_uc_table_key rule)),
                         Execute (sql_alter_from src_tbl (as_uc_table_key rule)
                                    (get_workspace_id (ws self)))] \<and>
            fst (migrate_external_table self src_tbl rule w) =
              (case on_execute (backend self)
                      (calls w @ [Fetch (sql_migrate_external src_tbl (as_uc_table_key rule))])
                      (sql_alter_from src_tbl (as_uc_table_key rule) (get_workspace_id (ws self))) of
                 None \<Rightarrow> Inr True
               | Some e \<Rightarrow> Inl e)) \<and>
         (status_code \<noteq> ''SUCCESS'' \<longrightarrow>
            calls (snd (migrate_external_table self src_tbl rule w)) =
              calls w @ [Fetch (sql_migrate_external src_tbl (as_uc_table_key rule))] \<and>
            fst (migrate_external_table self src_tbl rule w) = Inr False \<and>
            logs (snd (migrate_external_table self src_tbl rule w)) =
              logs w @
              [(DEBUG, ''Migrating external table '' @ key src_tbl @ '' to using SQL query: ''
                         @ sql_migrate_external src_tbl (as_uc_table_key rule)),
               (WARNING, ''SYNC command failed to migrate '' @ key src_tbl @ '' to ''
                           @ as_uc_table_key rule @ ''. Status code: '' @ status_code
                           @ ''. Description: '' @ description)])"
  using assms
  by (cases "on_execute (backend self)
               (calls w @ [Fetch (sql_migrate_external src_tbl (as_uc_table_key rule))])
               (sql_alter_from src_tbl (as_uc_table_key rule) (get_workspace_id (ws self)))")
     (simp_all add: migrate_external_table_def Let_def fetch_def and_then_def getattr_def
        execute_def logger_def)

theorem migrate_external_table_status_witness:
  "calls (snd (migrate_external_table
                 (example_migrate (answering [[(''status_code'', ''SUCCESS''), (''description'', ''ok'')]])
                    [] [sales_orders] [] [])
                 sales_orders (rule_to ''main.sales.orders'') empty_world)) =
     [Fetch ''SYNC TABLE main.sales.orders FROM sales.orders'',
      Execute ''ALTER main.sales.orders SET upgraded_from''] \<and>
   fst (migrate_external_table
          (example_migrate (answering [[(''status_code'', ''SUCCESS''), (''description'', ''ok'')]])
             [] [sales_orders] [] [])
          sales_orders (rule_to ''main.sales.orders'') empty_world) = Inr True \<and>
   calls (snd (migrate_external_table
                 (example_migrate
                    (answering [[(''status_code'', ''FAILED''), (''description'', ''permission denied'')]])
                    [] [sales_orders] [] [])
                 sales_orders (rule_to ''main.sales.orders'') empty_world)) =
     [Fetch ''SYNC TABLE main.sales.orders FROM sales.orders''] \<and>
   fst (migrate_external_table
          (example_migrate
             (answering [[(''status_code'', ''FAILED''), (''description'', ''permission denied'')]])
             [] [sales_orders] [] [])
          sales_orders (rule_to ''main.sales.orders'') empty_world) = Inr False \<and>
   logs (snd (migrate_external_table
                (example_migrate
                   (answering [[(''status_code'', ''FAILED''), (''description'', ''permission denied'')]])
                   [] [sales_orders] [] [])
                sales_orders (rule_to ''main.sales.orders'') empty_world)) =
     [(DEBUG, ''Migrating external table hive_metastore.sales.orders to using SQL query: SYNC TABLE main.sales.orders FROM sales.orders''),
      (WARNING, ''SYNC command failed to migrate hive_metastore.sales.orders to main.sales.orders. Status code: FAILED. Description: permission denied'')]"
proof -
  let ?ok = "[(''status_code'', ''SUCCESS''), (''description'', ''ok'')]"
  let ?ko = "[(''status_code'', ''FAILED''), (''description'', ''permission denied'')]"
  let ?self = "\<lambda>row. example_migrate (answering [row]) [] [sales_orders] [] []"
  let ?rule = "rule_to ''main.sales.orders''"
  have f: "on_fetch (backend (?self row)) (calls empty_world)
             (sql_migrate_external sales_orders (as_uc_table_key ?rule)) = Inr (row # [])" for row
    by (simp add: example_migrate_def answering_def)
  have ok: "map_of ?ok ''status_code'' = Some ''SUCCESS''" "map_of ?ok ''description'' = Some ''ok''"
    by simp_all
  have ko: "map_of ?ko ''status_code'' = Some ''FAILED''"
    "map_of ?ko ''description'' = Some ''permission denied''"
    by simp_all
  show ?thesis
    using migrate_external_table_status[OF f ok] migrate_external_table_status[OF f ko]
    by (simp add: example_migrate_def answering_def example_ws_def sales_orders_def
        example_table_def rule_to_def empty_world_def)
qed

text \<open>
  The claim C2 as stated fails: after a registration that answers \<open>SUCCESS\<close>, the one
  statement executed is the tag on the destination \<open>main.sales.orders\<close>, built by
  \<open>sql_alter_from\<close>; the tag on the source \<open>sales.orders\<close>, built by \<open>sql_alter_to\<close>, is
  not in the trace.
\<close>

theorem migrate_external_table_tag_counterexample:
  "fst (migrate_external_table
          (example_migrate (answering [[(''status_code'', ''SUCCESS''), (''description'', ''ok'')]])
             [] [sales_orders] [] [])
          sales_orders (rule_to ''main.sales.orders'') empty_world) = Inr True \<and>
   calls (snd (migrate_external_table
                 (example_migrate (answering [[(''status_code'', ''SUCCESS''), (''description'', ''ok'')]])
                    [] [sales_orders] [] [])
                 sales_orders (rule_to ''main.sales.orders'') empty_world)) =
     [Fetch (sql_migrate_external sales_orders ''main.sales.orders''),
      Execute (sql_alter_from sales_orders ''main.sales.orders'' 7)] \<and>
   sql_alter_from sales_orders ''main.sales.orders'' 7 = ''ALTER main.sales.orders SET upgraded_from'' \<and>
   sql_alter_to sales_orders ''main.sales.orders'' = ''ALTER sales.orders SET upgraded_to'' \<and>
   Execute (sql_alter_to sales_orders ''main.sales.orders'')
     \<notin> set (calls (snd (migrate_external_table
                 (example_migrate (answering [[(''status_code'', ''SUCCESS''), (''description'', ''ok'')]])
                    [] [sales_orders] [] [])
                 sales_orders (rule_to ''main.sales.orders'') empty_world)))"
  by code_simp

text \<open>
  C10. The guarantee of C2 needs the fetch to answer at least one row: when it answers
  none, taking the first element of the empty result raises \<open>StopIteration\<close>, and the
  migration of the external table ends with that exception instead of returning false.
\<close>

theorem migrate_external_table_empty_result:
  assumes "on_fetch (backend self) (calls w) (sql_migrate_external src_tbl (as_uc_table_key rule))
             = Inr []"
  shows "fst (migrate_external_table self src_tbl rule w) = Inl StopIteration \<and>
         calls (snd (migrate_external_table self src_tbl rule w)) =
           calls w @ [Fetch (sql_migrate_external src_tbl (as_uc_table_key rule))]"
  using assms by (simp add: migrate_external_table_def Let_def fetch_def logger_def and_then_def)

theorem migrate_external_table_empty_result_witness:
  "fst (migrate_external_table (example_migrate (answering []) [] [sales_orders] [] [])
          sales_orders (rule_to ''main.sales.orders'') empty_world) = Inl StopIteration \<and>
   calls (snd (migrate_external_table (example_migrate (answering []) [] [sales_orders] [] [])
                 sales_orders (rule_to ''main.sales.orders'') empty_world)) =
     [Fetch ''SYNC TABLE main.sales.orders FROM sales.orders'']"
proof -
  have f: "on_fetch (backend (example_migrate (answering []) [] [sales_orders] [] []))
             (calls empty_world)
             (sql_migrate_external sales_orders (as_uc_table_key (rule_to ''main.sales.orders'')))
           = Inr []"
    by (simp add: example_migrate_def answering_def)
  show ?thesis
    using migrate_external_table_empty_result[OF f]
    by (simp add: sales_orders_def example_table_def rule_to_def empty_world_def)
qed

text \<open>
  C7. Migrating a managed table of the root storage executes three statements in this
  order: the deep copy (\<open>sql_migrate_dbfs\<close>), the tag statement built by \<open>sql_alter_to\<close>,
  and the tag statement built by \<open>sql_alter_from\<close> with the workspace id; when none of
  them raises the task returns true. When the deep copy raises, the exception is the
  task's and neither tag statement is issued.
\<close>

theorem migrate_dbfs_root_table_statements:
  "(on_execute (backend self) (calls w) (sql_migrate_dbfs src_tbl (as_uc_table_key rule)) = None \<and>
    on_execute (backend self)
      (calls w @ [Execute (sql_migrate_dbfs src_tbl (as_uc_table_key rule))])
      (sql_alter_to src_tbl (as_uc_table_key rule)) = None \<and>
    on_execute (backend self)
      (calls w @ [Execute (sql_migrate_dbfs src_tbl (as_uc_table_key rule)),
                  Execute (sql_alter_to src_tbl (as_uc_table_key rule))])
      (sql_alter_from src_tbl (as_uc_table_key rule) (get_workspace_id (ws self))) = None \<longrightarrow>
      fst (migrate_dbfs_root_table self src_tbl rule w) = Inr True \<and>
      calls (snd (migrate_dbfs_root_table self src_tbl rule w)) =
        calls w @ [Execute (sql_migrate_dbfs src_tbl (as_uc_table_key rule)),
                   Execute (sql_alter_to src_tbl (as_uc_table_key rule)),
                   Execute (sql_alter_from src_tbl (as_uc_table_key rule)
                              (get_workspace_id (ws self)))]) \<and>
   (on_execute (backend self) (calls w) (sql_migrate_dbfs src_tbl (as_uc_table_key rule)) = Some e \<longrightarrow>
      fst (migrate_dbfs_root_table self src_tbl rule w) = Inl e \<and>
      calls (snd (migrate_dbfs_root_table self src_tbl rule w)) =
        calls w @ [Execute (sql_migrate_dbfs src_tbl (as_uc_table_key rule))])"
  by (simp add: migrate_dbfs_root_table_def Let_def execute_def logger_def and_then_def)

theorem migrate_dbfs_root_table_statements_witness:
  "fst (migrate_dbfs_root_table (example_migrate (failing_on []) [] [sales_stock] [] [])
          sales_stock (rule_to ''main.sales.stock'') empty_world) = Inr True \<and>
   calls (snd (migrate_dbfs_root_table (example_migrate (failing_on []) [] [sales_stock] [] [])
                 sales_stock (rule_to ''main.sales.stock'') empty_world)) =
     [Execute ''CREATE TABLE main.sales.stock DEEP CLONE sales.stock'',
      Execute ''ALTER sales.stock SET upgraded_to'',
      Execute ''ALTER main.sales.stock SET upgraded_from''] \<and>
   fst (migrate_dbfs_root_table
          (example_migrate (failing_on [''CREATE TABLE main.sales.stock DEEP CLONE sales.stock''])
             [] [sales_stock] [] [])
          sales_stock (rule_to ''main.sales.stock'') empty_world) =
     Inl (BackendError ''CREATE TABLE main.sales.stock DEEP CLONE sales.stock'') \<and>
   calls (snd (migrate_dbfs_root_table
                 (example_migrate (failing_on [''CREATE TABLE main.sales.stock DEEP CLONE sales.stock''])
                    [] [sales_stock] [] [])
                 sales_stock (rule_to ''main.sales.stock'') empty_world)) =
     [Execute ''CREATE TABLE main.sales.stock DEEP CLONE sales.stock'']"
  using migrate_dbfs_root_table_statements
          [of "example_migrate (failing_on []) [] [sales_stock] [] []" empty_world sales_stock
              "rule_to ''main.sales.stock''" StopIteration]
        migrate_dbfs_root_table_statements
          [of "example_migrate (failing_on [''CREATE TABLE main.sales.stock DEEP CLONE sales.stock''])
                 [] [sales_stock] [] []" empty_world sales_stock
              "rule_to ''main.sales.stock''"
              "BackendError ''CREATE TABLE main.sales.stock DEEP CLONE sales.stock''"]
  by (simp add: example_migrate_def failing_on_def example_ws_def sales_stock_def
      example_table_def rule_to_def empty_world_def)

text \<open>
  C8. For an object whose classification is none of \<open>DBFS_ROOT_DELTA\<close>,
  \<open>EXTERNAL_SYNC\<close> and \<open>VIEW\<close>, and whose destination is not a key of the seen-tables
  index, \<open>migrate_table\<close> returns true and issues no statement.
\<close>

theorem migrate_table_not_supported:
  assumes "as_uc_table_key rule \<notin> set (map fst (seen_tables self))"
    and "what src_tbl \<noteq> DBFS_ROOT_DELTA"
    and "what src_tbl \<noteq> EXTERNAL_SYNC"
    and "what src_tbl \<noteq> VIEW"
  shows "fst (migrate_table self src_tbl rule w) = Inr True \<and>
         calls (snd (migrate_table self src_tbl rule w)) = calls w"
  using assms by (simp add: migrate_table_def table_already_upgraded_def calls_logger)

theorem migrate_table_not_supported_witness:
  "what sales_legacy = NOT_SUPPORTED \<and>
   fst (migrate_table (example_migrate (failing_on []) [] [sales_legacy] [] [])
          sales_legacy (rule_to ''main.sales.legacy'') empty_world) = Inr True \<and>
   calls (snd (migrate_table (example_migrate (failing_on []) [] [sales_legacy] [] [])
                 sales_legacy (rule_to ''main.sales.legacy'') empty_world)) = []"
proof -
  have h: "as_uc_table_key (rule_to ''main.sales.legacy'')
             \<notin> set (map fst (seen_tables (example_migrate (failing_on []) [] [sales_legacy] [] [])))"
    by (simp add: example_migrate_def)
  have k: "what sales_legacy = NOT_SUPPORTED"
    by (simp add: sales_legacy_def example_table_def)
  show ?thesis
    using migrate_table_not_supported[OF h, of sales_legacy empty_world] k
    by (simp add: empty_world_def)
qed

section \<open>The seen-tables index\<close>

lemma ascii_lower_char_idem: "ascii_lower_char (ascii_lower_char c) = ascii_lower_char c"
  by (auto simp: ascii_lower_char_def Let_def)

lemma ascii_lower_idem: "ascii_lower (ascii_lower s) = ascii_lower s"
  by (simp add: ascii_lower_def ascii_lower_char_idem)

lemma get_seen_tables_flat:
  "get_seen_tables self w =
     fold (\<lambda>(schema, table). seen_tables_step self schema table) (listed_tables self) ([], w)"
proof -
  have inner: "fold (seen_tables_step self schema) ts sw =
      fold (\<lambda>(schema, table). seen_tables_step self schema table) (map (Pair schema) ts) sw"
    for schema ts sw
    by (induction ts arbitrary: sw) simp_all
  have outer: "fold (\<lambda>schema. fold (seen_tables_step self schema) (f schema)) ss sw =
      fold (\<lambda>(schema, table). seen_tables_step self schema table)
        (concat (map (\<lambda>schema. map (Pair schema) (f schema)) ss)) sw" for f ss sw
    by (induction ss arbitrary: sw) (simp_all add: inner)
  show ?thesis
    unfolding get_seen_tables_def listed_tables_def by (rule outer)
qed

lemma index_entry_Some:
  "index_entry self table = Some (k, v) \<longleftrightarrow>
     (\<exists>props source fname. properties table = Some props \<and>
        map_of props ''upgraded_from'' = Some source \<and> full_name table = Some fname \<and>
        fname \<noteq> [] \<and> k = msr_lower self fname \<and> v = msr_lower self source)"
  unfolding index_entry_def
  by (cases "properties table"; cases "full_name table"; simp split: option.splits) auto

lemma fst_seen_tables_step:
  "fst (seen_tables_step self schema table (seen, w)) =
     (case index_entry self table of None \<Rightarrow> seen | Some (k, v) \<Rightarrow> AList.update k v seen)"
  unfolding seen_tables_step_def index_entry_def
  by (cases "properties table"; cases "full_name table"; simp add: Let_def split: option.splits)

lemma fold_step_snoc:
  "fold (\<lambda>(schema, table). seen_tables_step self schema table) (ps @ [(schema, table)]) sw =
     seen_tables_step self schema table
       (fold (\<lambda>(schema, table). seen_tables_step self schema table) ps sw)"
  by simp

lemma fold_seen_keys:
  "fst ` set (fst (fold (\<lambda>(schema, table). seen_tables_step self schema table) ps ([], w))) =
     {k. \<exists>schema table v. (schema, table) \<in> set ps \<and> index_entry self table = Some (k, v)}"
proof (induction ps rule: rev_induct)
  case Nil
  then show ?case by simp
next
  case (snoc p ps)
  obtain schema table where p: "p = (schema, table)" by (cases p)
  obtain seen w1
    where f: "fold (\<lambda>(schema, table). seen_tables_step self schema table) ps ([], w) = (seen, w1)"
    by (cases "fold (\<lambda>(schema, table). seen_tables_step self schema table) ps ([], w)")
  have ih: "fst ` set seen =
      {k. \<exists>schema table v. (schema, table) \<in> set ps \<and> index_entry self table = Some (k, v)}"
    using snoc.IH f by simp
  have keys: "fst ` set (AList.update k v seen) = insert k (fst ` set seen)" for k v
    using dom_update[of k v seen] by (simp add: dom_map_of_conv_image_fst)
  have step: "fst ` set (fst (seen_tables_step self schema table (seen, w1))) =
      fst ` set seen \<union> {k. \<exists>v. index_entry self table = Some (k, v)}"
  proof (cases "index_entry self table")
    case None
    then show ?thesis by (simp add: fst_seen_tables_step)
  next
    case (Some kv)
    obtain k v where kv: "kv = (k, v)" by (cases kv)
    have "{k'. \<exists>v'. index_entry self table = Some (k', v')} = {k}"
      using Some kv by auto
    then show ?thesis
      using Some kv by (simp add: fst_seen_tables_step keys)
  qed
  have "fst ` set (fst (fold (\<lambda>(schema, table). seen_tables_step self schema table) (ps @ [p]) ([], w))) =
      fst ` set seen \<union> {k. \<exists>v. index_entry self table = Some (k, v)}"
    unfolding p fold_step_snoc f by (rule step)
  also have "\<dots> = {k. \<exists>schema' table' v.
      (schema', table') \<in> set (ps @ [p]) \<and> index_entry self table' = Some (k, v)}"
    unfolding ih p by auto
  finally show ?case .
qed

lemma fold_seen_map_of:
  "map_of (fst (fold (\<lambda>(schema, table). seen_tables_step self schema table) ps ([], w))) =
     map_of (rev (List.map_filter (\<lambda>(schema, table). index_entry self table) ps))"
proof (induction ps rule: rev_induct)
  case Nil
  then show ?case by (simp add: List.map_filter_simps)
next
  case (snoc p ps)
  obtain schema table where p: "p = (schema, table)" by (cases p)
  obtain seen w1
    where f: "fold (\<lambda>(schema, table). seen_tables_step self schema table) ps ([], w) = (seen, w1)"
    by (cases "fold (\<lambda>(schema, table). seen_tables_step self schema table) ps ([], w)")
  have ih: "map_of seen = map_of (rev (List.map_filter (\<lambda>(schema, table). index_entry self table) ps))"
    using snoc.IH f by simp
  show ?case
  proof (cases "index_entry self table")
    case None
    then show ?thesis
      unfolding p fold_step_snoc f
      by (simp add: fst_seen_tables_step ih List.map_filter_def)
  next
    case (Some kv)
    obtain k v where kv: "kv = (k, v)" by (cases kv)
    show ?thesis
      unfolding p fold_step_snoc f
      using Some kv by (simp add: fst_seen_tables_step ih List.map_filter_def update_conv')
  qed
qed

lemma fold_seen_distinct:
  "distinct (map fst (fst (fold (\<lambda>(schema, table). seen_tables_step self schema table) ps ([], w))))"
proof (induction ps rule: rev_induct)
  case Nil
  then show ?case by simp
next
  case (snoc p ps)
  obtain schema table where p: "p = (schema, table)" by (cases p)
  obtain seen w1
    where f: "fold (\<lambda>(schema, table). seen_tables_step self schema table) ps ([], w) = (seen, w1)"
    by (cases "fold (\<lambda>(schema, table). seen_tables_step self schema table) ps ([], w)")
  have ih: "distinct (map fst seen)"
    using snoc.IH f by simp
  show ?case
    unfolding p fold_step_snoc f
    using ih by (cases "index_entry self table") (auto simp: fst_seen_tables_step distinct_update)
qed

lemma fold_seen_entries:
  assumes "(k, v) \<in> set (fst (fold (\<lambda>(schema, table). seen_tables_step self schema table) ps ([], w)))"
  shows "\<exists>schema table. (schema, table) \<in> set ps \<and> index_entry self table = Some (k, v)"
proof -
  have "map_of (fst (fold (\<lambda>(schema, table). seen_tables_step self schema table) ps ([], w))) k = Some v"
    using assms fold_seen_distinct[of self ps w] by simp
  then have "(k, v) \<in> set (rev (List.map_filter (\<lambda>(schema, table). index_entry self table) ps))"
    unfolding fold_seen_map_of by (rule map_of_SomeD)
  then obtain p where m: "p \<in> set ps"
    and e: "(case p of (schema, table) \<Rightarrow> index_entry self table) = Some (k, v)"
    by (auto simp: List.map_filter_def)
  obtain schema table where p: "p = (schema, table)" by (cases p)
  have "(schema, table) \<in> set ps \<and> index_entry self table = Some (k, v)"
    using m e p by simp
  then show ?thesis by blast
qed

lemma snd_seen_tables_step:
  "logs (snd (seen_tables_step self schema table (seen, w))) =
     logs w @
     (if (case properties table of
            None \<Rightarrow> False
          | Some props \<Rightarrow> map_of props ''upgraded_from'' \<noteq> None) \<and>
         (full_name table = None \<or> full_name table = Some [])
      then [(WARNING, ''The table '' @ str_opt (ti_name table) @ '' in '' @ schema_name schema
                        @ '' has no full name'')]
      else [])"
  unfolding seen_tables_step_def
  by (cases "properties table"; cases "full_name table"; simp add: Let_def logs_logger split: option.splits)

lemma fold_seen_logs:
  "logs (snd (fold (\<lambda>(schema, table). seen_tables_step self schema table) ps (seen0, w))) =
     logs w @
     map (\<lambda>(schema, table).
            (WARNING, ''The table '' @ str_opt (ti_name table) @ '' in '' @ schema_name schema
                        @ '' has no full name''))
       (filter (\<lambda>(schema, table).
                  (case properties table of
                     None \<Rightarrow> False
                   | Some props \<Rightarrow> map_of props ''upgraded_from'' \<noteq> None) \<and>
                  (full_name table = None \<or> full_name table = Some []))
          ps)"
proof (induction ps rule: rev_induct)
  case Nil
  then show ?case by simp
next
  case (snoc p ps)
  obtain schema table where p: "p = (schema, table)" by (cases p)
  obtain seen w1
    where f: "fold (\<lambda>(schema, table). seen_tables_step self schema table) ps (seen0, w) = (seen, w1)"
    by (cases "fold (\<lambda>(schema, table). seen_tables_step self schema table) ps (seen0, w)")
  show ?case
    unfolding p fold_step_snoc f
    using snoc.IH f by (simp add: snd_seen_tables_step)
qed

text \<open>
  C6. Write \<open>lower\<close> for the \<^verbatim>\<open>str.lower()\<close> of the runtime, the parameter \<open>msr_lower\<close>.
  The index that \<open>get_seen_tables\<close> returns has a key exactly for \<open>lower\<close> of the full
  name of every listed destination object that carries the property \<open>upgraded_from\<close> and
  has a full name that is not empty. Every entry comes from such an object: its key is
  \<open>lower\<close> of the full name and its value is \<open>lower\<close> of \<open>upgraded_from\<close>; so a key or a
  value is its own lower case whenever lower-casing twice is lower-casing once. The keys
  are distinct, and the only effect besides the index is one warning for each tagged
  object without a full name; objects without the tag leave no trace.
\<close>

theorem get_seen_tables_index:
  "(k \<in> fst ` set (fst (get_seen_tables self w)) \<longleftrightarrow>
      (\<exists>schema table props source fname.
          (schema, table) \<in> set (listed_tables self) \<and> properties table = Some props \<and>
          map_of props ''upgraded_from'' = Some source \<and> full_name table = Some fname \<and>
          fname \<noteq> [] \<and> k = msr_lower self fname)) \<and>
   (\<forall>(k, v) \<in> set (fst (get_seen_tables self w)).
      (\<exists>schema table props source fname.
          (schema, table) \<in> set (listed_tables self) \<and> properties table = Some props \<and>
          map_of props ''upgraded_from'' = Some source \<and> full_name table = Some fname \<and>
          fname \<noteq> [] \<and> k = msr_lower self fname \<and> v = msr_lower self source) \<and>
      ((\<forall>s. msr_lower self (msr_lower self s) = msr_lower self s) \<longrightarrow>
         msr_lower self k = k \<and> msr_lower self v = v)) \<and>
   distinct (map fst (fst (get_seen_tables self w))) \<and>
   logs (snd (get_seen_tables self w)) =
     logs w @
     map (\<lambda>(schema, table).
            (WARNING, ''The table '' @ str_opt (ti_name table) @ '' in '' @ schema_name schema
                        @ '' has no full name''))
       (filter (\<lambda>(schema, table).
                  (case properties table of
                     None \<Rightarrow> False
                   | Some props \<Rightarrow> map_of props ''upgraded_from'' \<noteq> None) \<and>
                  (full_name table = None \<or> full_name table = Some []))
          (listed_tables self))"
proof (intro conjI)
  show "k \<in> fst ` set (fst (get_seen_tables self w)) \<longleftrightarrow>
      (\<exists>schema table props source fname.
          (schema, table) \<in> set (listed_tables self) \<and> properties table = Some props \<and>
          map_of props ''upgraded_from'' = Some source \<and> full_name table = Some fname \<and>
          fname \<noteq> [] \<and> k = msr_lower self fname)"
    unfolding get_seen_tables_flat fold_seen_keys
    by (simp add: index_entry_Some) blast
next
  show "\<forall>(k, v) \<in> set (fst (get_seen_tables self w)).
      (\<exists>schema table props source fname.
          (schema, table) \<in> set (listed_tables self) \<and> properties table = Some props \<and>
          map_of props ''upgraded_from'' = Some source \<and> full_name table = Some fname \<and>
          fname \<noteq> [] \<and> k = msr_lower self fname \<and> v = msr_lower self source) \<and>
      ((\<forall>s. msr_lower self (msr_lower self s) = msr_lower self s) \<longrightarrow>
         msr_lower self k = k \<and> msr_lower self v = v)"
  proof (intro ballI, clarify)
    fix k v
    assume "(k, v) \<in> set (fst (get_seen_tables self w))"
    then obtain schema table where m: "(schema, table) \<in> set (listed_tables self)"
      and e: "index_entry self table = Some (k, v)"
      unfolding get_seen_tables_flat using fold_seen_entries by blast
    from e obtain props source fname where q: "properties table = Some props"
      "map_of props ''upgraded_from'' = Some source" "full_name table = Some fname"
      "fname \<noteq> []" "k = msr_lower self fname" "v = msr_lower self source"
      unfolding index_entry_Some by blast
    have idem: "(\<forall>s. msr_lower self (msr_lower self s) = msr_lower self s) \<longrightarrow>
         msr_lower self k = k \<and> msr_lower self v = v"
      using q(5,6) by simp
    have "\<exists>schema table props source fname.
          (schema, table) \<in> set (listed_tables self) \<and> properties table = Some props \<and>
          map_of props ''upgraded_from'' = Some source \<and> full_name table = Some fname \<and>
          fname \<noteq> [] \<and> k = msr_lower self fname \<and> v = msr_lower self source"
      using m q by blast
    then show "(\<exists>schema table props source fname.
          (schema, table) \<in> set (listed_tables self) \<and> properties table = Some props \<and>
          map_of props ''upgraded_from'' = Some source \<and> full_name table = Some fname \<and>
          fname \<noteq> [] \<and> k = msr_lower self fname \<and> v = msr_lower self source) \<and>
      ((\<forall>s. msr_lower self (msr_lower self s) = msr_lower self s) \<longrightarrow>
         msr_lower self k = k \<and> msr_lower self v = v)"
      using idem by blast
  qed
next
  show "distinct (map fst (fst (get_seen_tables self w)))"
    unfolding get_seen_tables_flat by (rule fold_seen_distinct)
next
  show "logs (snd (get_seen_tables self w)) =
     logs w @
     map (\<lambda>(schema, table).
            (WARNING, ''The table '' @ str_opt (ti_name table) @ '' in '' @ schema_name schema
                        @ '' has no full name''))
       (filter (\<lambda>(schema, table).
                  (case properties table of
                     None \<Rightarrow> False
                   | Some props \<Rightarrow> map_of props ''upgraded_from'' \<noteq> None) \<and>
                  (full_name table = None \<or> full_name table = Some []))
          (listed_tables self))"
    unfolding get_seen_tables_flat by (rule fold_seen_logs)
qed

theorem get_seen_tables_index_witness:
  "fst (get_seen_tables (example_refresher (answering []) example_listing []) empty_world) =
     [(''main.sales.orders'', ''hive_metastore.sales.orders'')] \<and>
   msr_lower (example_refresher (answering []) example_listing []) ''main.sales.orders''
     = ''main.sales.orders'' \<and>
   msr_lower (example_refresher (answering []) example_listing []) ''hive_metastore.sales.orders''
     = ''hive_metastore.sales.orders'' \<and>
   distinct (map fst (fst (get_seen_tables (example_refresher (answering []) example_listing [])
                             empty_world))) \<and>
   logs (snd (get_seen_tables (example_refresher (answering []) example_listing []) empty_world)) =
     [(WARNING, ''The table ghost in sales has no full name'')]"
proof -
  let ?r = "example_refresher (answering []) example_listing []"
  have ev: "fst (get_seen_tables ?r empty_world) =
      [(''main.sales.orders'', ''hive_metastore.sales.orders'')]"
    by code_simp
  have lg: "logs (snd (get_seen_tables ?r empty_world)) =
      [(WARNING, ''The table ghost in sales has no full name'')]"
    by code_simp
  have idem: "\<forall>s. msr_lower ?r (msr_lower ?r s) = msr_lower ?r s"
    by (simp add: example_refresher_def ascii_lower_idem)
  have "\<forall>(k, v) \<in> set (fst (get_seen_tables ?r empty_world)).
          (\<forall>s. msr_lower ?r (msr_lower ?r s) = msr_lower ?r s) \<longrightarrow>
          msr_lower ?r k = k \<and> msr_lower ?r v = v"
    using get_seen_tables_index[of "''main.sales.orders''" ?r empty_world] by blast
  then have lw: "msr_lower ?r ''main.sales.orders'' = ''main.sales.orders'' \<and>
      msr_lower ?r ''hive_metastore.sales.orders'' = ''hive_metastore.sales.orders''"
    unfolding ev using idem by simp
  have d: "distinct (map fst (fst (get_seen_tables ?r empty_world)))"
    using get_seen_tables_index[of "''main.sales.orders''" ?r empty_world] by blast
  show ?thesis
    using ev lg lw d by blast
qed

section \<open>Revert\<close>

text \<open>
  C4. A table filter without a schema filter: \<open>get_tables_to_revert\<close> logs the error
  "Cannot accept 'Table' parameter without 'Schema' parameter" and then goes on to the
  loop, which keeps the migrated tables of that name in every schema. With the tables
  \<open>sales.orders\<close> (migrated) and \<open>sales.stock\<close> in the inventory and the filter
  \<open>orders\<close>, the list returned is not empty: it holds \<open>sales.orders\<close>.
\<close>

theorem get_tables_to_revert_table_without_schema:
  "map key (fst (get_tables_to_revert
                   (example_migrate (answering []) [] [sales_orders, sales_stock] []
                      [(''main.sales.orders'', ''hive_metastore.sales.orders'')])
                   None (Some ''orders'') empty_world)) = [''hive_metastore.sales.orders''] \<and>
   logs (snd (get_tables_to_revert
                (example_migrate (answering []) [] [sales_orders, sales_stock] []
                   [(''main.sales.orders'', ''hive_metastore.sales.orders'')])
                None (Some ''orders'') empty_world)) =
     [(ERROR, ''Cannot accept 'Table' parameter without 'Schema' parameter'')]"
  by code_simp

lemma calls_get_tables_to_revert: "calls (snd (get_tables_to_revert self schema table w)) = calls w"
  by (simp add: get_tables_to_revert_def Let_def calls_logger)

lemma calls_init_seen_tables: "calls (snd (init_seen_tables self w)) = calls w"
  using calls_get_seen_tables[of "migration_status_refresher self" w]
  by (cases "get_seen_tables (migration_status_refresher self) w") (simp add: init_seen_tables_def)

lemma calls_print: "calls (print line w) = calls w"
  by (simp add: print_def)

lemma logs_print: "logs (print line w) = logs w"
  by (simp add: print_def)

lemma calls_fold_print: "calls (fold print ls w) = calls w"
  by (induction ls arbitrary: w) (simp_all add: calls_print)

lemma logs_fold_print: "logs (fold print ls w) = logs w"
  by (induction ls arbitrary: w) (simp_all add: logs_print)

lemma group_by_database_keys:
  "fst ` set (fold (\<lambda>cur_table table_by_database.
             AList.update (database cur_table)
               ((case map_of table_by_database (database cur_table) of
                   None \<Rightarrow> []
                 | Some tables \<Rightarrow> tables) @ [cur_table])
               table_by_database) (ts :: Table list) acc) = fst ` set acc \<union> database ` set ts"
proof (induction ts arbitrary: acc)
  case Nil
  then show ?case by simp
next
  case (Cons t ts)
  have keys: "fst ` set (AList.update k v acc) = insert k (fst ` set acc)" for k and v :: "Table list"
    using dom_update[of k v acc] by (simp add: dom_map_of_conv_image_fst)
  show ?case
    by (simp add: Cons.IH keys)
qed

lemma group_by_database_empty: "group_by_database ts = [] \<longleftrightarrow> ts = []"
proof -
  have "fst ` set (group_by_database ts) = database ` set ts"
    unfolding group_by_database_def by (simp add: group_by_database_keys)
  then show ?thesis
    by (cases ts) (auto simp: group_by_database_def)
qed

lemma get_revert_count_unfold:
  "get_revert_count self schema table w =
     (map (\<lambda>(cur_database, tables).
             \<lparr>mc_database = cur_database, what_count = fold revert_count_step tables []\<rparr>)
        (group_by_database
           (fst (get_tables_to_revert (fst (init_seen_tables self w)) schema table
                   (snd (init_seen_tables self w))))),
      fst (init_seen_tables self w),
      snd (get_tables_to_revert (fst (init_seen_tables self w)) schema table
             (snd (init_seen_tables self w))))"
  by (simp add: get_revert_count_def split: prod.splits)

text \<open>
  C9. \<open>print_revert_report\<close> returns false exactly when the list of counts per database
  is empty, which is exactly when there is no table to revert, and true otherwise. The
  message "No migrated tables were found." is logged in the first case and nothing is
  logged in the second. In both cases the trace of backend calls is as it was.
\<close>

theorem print_revert_report_result:
  "fst (print_revert_report self delete_managed w) = (fst (get_revert_count self None None w) \<noteq> []) \<and>
   (fst (get_revert_count self None None w) = [] \<longleftrightarrow>
      fst (get_tables_to_revert (fst (init_seen_tables self w)) None None
             (snd (init_seen_tables self w))) = []) \<and>
   logs (snd (snd (print_revert_report self delete_managed w))) =
     logs (snd (snd (get_revert_count self None None w))) @
     (if fst (get_revert_count self None None w) = []
      then [(INFO, ''No migrated tables were found.'')] else []) \<and>
   calls (snd (snd (print_revert_report self delete_managed w))) = calls w"
proof -
  obtain migrated_count self1 w1 where g: "get_revert_count self None None w = (migrated_count, self1, w1)"
    by (cases "get_revert_count self None None w")
  have c1: "calls w1 = calls w"
    using g unfolding get_revert_count_unfold
    by (auto simp: calls_get_tables_to_revert calls_init_seen_tables)
  have e: "migrated_count = [] \<longleftrightarrow>
      fst (get_tables_to_revert (fst (init_seen_tables self w)) None None
             (snd (init_seen_tables self w))) = []"
    using g unfolding get_revert_count_unfold by (auto simp: group_by_database_empty)
  show ?thesis
    using c1 e
    by (simp add: print_revert_report_def g Let_def logs_logger calls_logger calls_fold_print
        logs_fold_print calls_print logs_print)
qed


theorem print_revert_report_result_witness:
  "fst (print_revert_report (example_migrate (answering []) [] [sales_orders] [] []) False
          empty_world) = False \<and>
   logs (snd (snd (print_revert_report (example_migrate (answering []) [] [sales_orders] [] [])
                     False empty_world))) = [(INFO, ''No migrated tables were found.'')] \<and>
   calls (snd (snd (print_revert_report (example_migrate (answering []) [] [sales_orders] [] [])
                      False empty_world))) = [] \<and>
   fst (print_revert_report
          (example_migrate (answering [])
             [tagged_table ''main.sales.orders'' ''hive_metastore.sales.orders''] [sales_orders] [] [])
          False empty_world) = True \<and>
   logs (snd (snd (print_revert_report
          (example_migrate (answering [])
             [tagged_table ''main.sales.orders'' ''hive_metastore.sales.orders''] [sales_orders] [] [])
          False empty_world))) = [] \<and>
   calls (snd (snd (print_revert_report
          (example_migrate (answering [])
             [tagged_table ''main.sales.orders'' ''hive_metastore.sales.orders''] [sales_orders] [] [])
          False empty_world))) = []"
proof -
  let ?none = "example_migrate (answering []) [] [sales_orders] [] []"
  let ?one = "example_migrate (answering [])
             [tagged_table ''main.sales.orders'' ''hive_metastore.sales.orders''] [sales_orders] [] []"
  have n: "fst (get_revert_count ?none None None empty_world) = []"
    "logs (snd (snd (get_revert_count ?none None None empty_world))) = []"
    by code_simp+
  have o: "fst (get_revert_count ?one None None empty_world) \<noteq> []"
    "logs (snd (snd (get_revert_count ?one None None empty_world))) = []"
    by code_simp+
  have e: "calls empty_world = []"
    by (simp add: empty_world_def)
  show ?thesis
    using print_revert_report_result[of ?none False empty_world]
      print_revert_report_result[of ?one False empty_world] n o e
    by simp
qed

subsection \<open>Which statements a revert issues\<close>

lemma reverse_fold_dom:
  "dom (map_of (fold (\<lambda>(k, v). AList.update v k) d acc)) = dom (map_of acc) \<union> snd ` set d"
proof (induction d arbitrary: acc)
  case Nil
  then show ?case by simp
next
  case (Cons p d)
  obtain k v where p: "p = (k, v)" by (cases p)
  have "dom (map_of (fold (\<lambda>(k, v). AList.update v k) (p # d) acc)) =
      dom (map_of (AList.update v k acc)) \<union> snd ` set d"
    unfolding p using Cons.IH[of "AList.update v k acc"] by simp
  also have "\<dots> = insert v (dom (map_of acc)) \<union> snd ` set d"
    by (simp add: dom_map_of_conv_image_fst dom_update)
  also have "\<dots> = dom (map_of acc) \<union> snd ` set (p # d)"
    unfolding p by auto
  finally show ?case .
qed

lemma reverse_fold_sound:
  "map_of (fold (\<lambda>(k, v). AList.update v k) d acc) x = Some y \<Longrightarrow>
     map_of acc x = Some y \<or> (y, x) \<in> set d"
proof (induction d arbitrary: acc)
  case Nil
  then show ?case by simp
next
  case (Cons p d)
  obtain k v where p: "p = (k, v)" by (cases p)
  have "map_of (AList.update v k acc) x = Some y \<or> (y, x) \<in> set d"
    using Cons.prems Cons.IH[of "AList.update v k acc"] unfolding p by simp
  then show ?case
    unfolding p by (auto simp: update_conv' split: if_splits)
qed

lemma reverse_dict_lookup:
  "v \<in> snd ` set d \<Longrightarrow> \<exists>k. map_of (reverse_dict d) v = Some k \<and> (k, v) \<in> set d"
proof -
  assume "v \<in> snd ` set d"
  then have "v \<in> dom (map_of (reverse_dict d))"
    unfolding reverse_dict_def reverse_fold_dom by simp
  then obtain k where k: "map_of (reverse_dict d) v = Some k" by blast
  then have "(k, v) \<in> set d"
    using reverse_fold_sound[of d "[]" v k] unfolding reverse_dict_def by simp
  with k show ?thesis by blast
qed

lemma tables_to_revert_loop_seen:
  "t \<in> set (tables_to_revert_loop self schema table ts) \<Longrightarrow>
     t \<in> set ts \<and> key t \<in> snd ` set (seen_tables self)"
  by (induction ts) (auto split: if_splits)

lemma revert_tasks_result:
  assumes "\<forall>t \<in> set ts. map_of rs (key t) \<noteq> None"
  shows "fst (revert_tasks self rs dm ts w) =
           Inr (map (\<lambda>t. revert_migrated_table self t (the (map_of rs (key t))))
                  (filter (\<lambda>t. kind t = ''VIEW'' \<or> object_type t = ''EXTERNAL'' \<or> dm) ts)) \<and>
         calls (snd (revert_tasks self rs dm ts w)) = calls w"
  using assms
proof (induction ts arbitrary: w)
  case Nil
  then show ?case by simp
next
  case (Cons t ts)
  have ih: "\<And>w. fst (revert_tasks self rs dm ts w) =
           Inr (map (\<lambda>t. revert_migrated_table self t (the (map_of rs (key t))))
                  (filter (\<lambda>t. kind t = ''VIEW'' \<or> object_type t = ''EXTERNAL'' \<or> dm) ts)) \<and>
         calls (snd (revert_tasks self rs dm ts w)) = calls w"
    using Cons by simp
  obtain d where d: "map_of rs (key t) = Some d"
    using Cons.prems by auto
  show ?case
  proof (cases "kind t = ''VIEW'' \<or> object_type t = ''EXTERNAL'' \<or> dm")
    case True
    obtain r w1 where rw: "revert_tasks self rs dm ts w = (r, w1)"
      by (cases "revert_tasks self rs dm ts w")
    show ?thesis
      using True d ih[of w] rw by (auto simp: and_then_def)
  next
    case False
    then show ?thesis
      using ih by (simp add: calls_logger)
  qed
qed

lemma revert_tasks_logs:
  assumes "\<forall>t \<in> set ts. map_of rs (key t) \<noteq> None"
  shows "logs (snd (revert_tasks self rs dm ts w)) =
           logs w @
           map (\<lambda>t. (INFO, ''Skipping '' @ object_type t @ '' Table '' @ database t @ ''.'' @ name t
                             @ '' upgraded_to '' @ str_opt (upgraded_to t)))
             (filter (\<lambda>t. \<not> (kind t = ''VIEW'' \<or> object_type t = ''EXTERNAL'' \<or> dm)) ts)"
  using assms
proof (induction ts arbitrary: w)
  case Nil
  then show ?case by simp
next
  case (Cons t ts)
  have ih: "\<And>w. logs (snd (revert_tasks self rs dm ts w)) =
           logs w @
           map (\<lambda>t. (INFO, ''Skipping '' @ object_type t @ '' Table '' @ database t @ ''.'' @ name t
                             @ '' upgraded_to '' @ str_opt (upgraded_to t)))
             (filter (\<lambda>t. \<not> (kind t = ''VIEW'' \<or> object_type t = ''EXTERNAL'' \<or> dm)) ts)"
    using Cons by simp
  obtain d where d: "map_of rs (key t) = Some d"
    using Cons.prems by auto
  show ?case
  proof (cases "kind t = ''VIEW'' \<or> object_type t = ''EXTERNAL'' \<or> dm")
    case True
    obtain r w1 where rw: "revert_tasks self rs dm ts w = (r, w1)"
      by (cases "revert_tasks self rs dm ts w")
    have "logs w1 = logs (snd (revert_tasks self rs dm ts w))"
      using rw by simp
    then show ?thesis
      using True d ih[of w] rw by (cases r) (auto simp: and_then_def)
  next
    case False
    then show ?thesis
      using ih[of "logger INFO (''Skipping '' @ object_type t @ '' Table '' @ database t @ ''.'' @ name t
                             @ '' upgraded_to '' @ str_opt (upgraded_to t)) w"]
      by (simp add: logs_logger)
  qed
qed

lemma revert_migrated_table_steps:
  "(on_execute (backend self) (calls v) (sql_unset_upgraded_to t) = Some e \<longrightarrow>
      fst (revert_migrated_table self t target v) = Inl e \<and>
      calls (snd (revert_migrated_table self t target v)) =
        calls v @ [Execute (sql_unset_upgraded_to t)]) \<and>
   (on_execute (backend self) (calls v) (sql_unset_upgraded_to t) = None \<longrightarrow>
      fst (revert_migrated_table self t target v) =
        (case on_execute (backend self) (calls v @ [Execute (sql_unset_upgraded_to t)])
                (''DROP '' @ kind t @ '' IF EXISTS '' @ target) of
           None \<Rightarrow> Inr ()
         | Some e' \<Rightarrow> Inl e') \<and>
      calls (snd (revert_migrated_table self t target v)) =
        calls v @ [Execute (sql_unset_upgraded_to t),
                   Execute (''DROP '' @ kind t @ '' IF EXISTS '' @ target)])"
  by (cases "on_execute (backend self) (calls v @ [Execute (sql_unset_upgraded_to t)])
                (''DROP '' @ kind t @ '' IF EXISTS '' @ target)")
     (simp_all add: revert_migrated_table_def Let_def execute_def logger_def and_then_def)


text \<open>
  C3, as the code has it. For a candidate that is a view or an external table, and for
  every candidate when \<open>delete_managed\<close> is set, the loop of \<open>revert_migrated_tables\<close>
  hands one task to the task runner; for a managed table when \<open>delete_managed\<close> is not
  set it hands over no task and logs "Skipping ...": no statement is issued for that
  table, neither the one that clears its tag nor a drop. The loop itself issues no
  statement, and the operation is the task runner on exactly these tasks. A task issues
  the statement that unsets \<open>upgraded_to\<close> on the source and, when that statement does not
  raise, the conditional drop of the destination that the index maps to the candidate's
  key, which every candidate has. Nothing is said about the order in which the
  statements of different tasks reach the backend.
\<close>

theorem revert_migrated_tables_tasks:
  "fst (revert_loop self schema table delete_managed w) =
     Inr (map (\<lambda>t. revert_migrated_table (revert_self self w) t
                      (the (map_of (reverse_dict (seen_tables (revert_self self w))) (key t))))
            (filter (\<lambda>t. kind t = ''VIEW'' \<or> object_type t = ''EXTERNAL'' \<or> delete_managed)
               (revert_candidates self schema table w))) \<and>
   calls (snd (revert_loop self schema table delete_managed w)) = calls w \<and>
   logs (snd (revert_loop self schema table delete_managed w)) =
     logs (revert_world self schema table w) @
     map (\<lambda>t. (INFO, ''Skipping '' @ object_type t @ '' Table '' @ database t @ ''.'' @ name t
                       @ '' upgraded_to '' @ str_opt (upgraded_to t)))
       (filter (\<lambda>t. \<not> (kind t = ''VIEW'' \<or> object_type t = ''EXTERNAL'' \<or> delete_managed))
          (revert_candidates self schema table w)) \<and>
   revert_migrated_tables self schema table delete_managed w =
     (case Threads_strict ''revert migrated tables''
             (map (\<lambda>t. revert_migrated_table (revert_self self w) t
                          (the (map_of (reverse_dict (seen_tables (revert_self self w))) (key t))))
                (filter (\<lambda>t. kind t = ''VIEW'' \<or> object_type t = ''EXTERNAL'' \<or> delete_managed)
                   (revert_candidates self schema table w)))
             (snd (revert_loop self schema table delete_managed w)) of
        (Inl e, w4) \<Rightarrow> (Inl e, revert_self self w, w4)
      | (Inr _, w4) \<Rightarrow> (Inr (), revert_self self w, w4)) \<and>
   (\<forall>t \<in> set (revert_candidates self schema table w).
      \<exists>d. map_of (reverse_dict (seen_tables (revert_self self w))) (key t) = Some d \<and>
          (d, key t) \<in> set (seen_tables (revert_self self w))) \<and>
   (\<forall>t target v.
      (\<forall>e. on_execute (backend self) (calls v) (sql_unset_upgraded_to t) = Some e \<longrightarrow>
         fst (revert_migrated_table (revert_self self w) t target v) = Inl e \<and>
         calls (snd (revert_migrated_table (revert_self self w) t target v)) =
           calls v @ [Execute (sql_unset_upgraded_to t)]) \<and>
      (on_execute (backend self) (calls v) (sql_unset_upgraded_to t) = None \<longrightarrow>
         fst (revert_migrated_table (revert_self self w) t target v) =
           (case on_execute (backend self) (calls v @ [Execute (sql_unset_upgraded_to t)])
                   (''DROP '' @ kind t @ '' IF EXISTS '' @ target) of
              None \<Rightarrow> Inr ()
            | Some e' \<Rightarrow> Inl e') \<and>
         calls (snd (revert_migrated_table (revert_self self w) t target v)) =
           calls v @ [Execute (sql_unset_upgraded_to t),
                      Execute (''DROP '' @ kind t @ '' IF EXISTS '' @ target)]))"
proof -
  obtain seen w1 where g: "get_seen_tables (migration_status_refresher self) w = (seen, w1)"
    by (cases "get_seen_tables (migration_status_refresher self) w")
  have c1: "calls w1 = calls w"
    using calls_get_seen_tables[of "migration_status_refresher self" w] g by simp
  define self1 where "self1 = self\<lparr>seen_tables := seen\<rparr>"
  have i: "init_seen_tables self w = (self1, w1)"
    by (simp add: init_seen_tables_def g self1_def)
  have rs1: "revert_self self w = self1"
    by (simp add: revert_self_def i)
  have ss: "seen_tables self1 = seen" and bs: "backend self1 = backend self"
    by (simp_all add: self1_def)
  obtain cands w2 where t: "get_tables_to_revert self1 schema table w1 = (cands, w2)"
    by (cases "get_tables_to_revert self1 schema table w1")
  have c2: "calls w2 = calls w"
    using calls_get_tables_to_revert[of self1 schema table w1] t c1 by simp
  have rc: "revert_candidates self schema table w = cands"
    by (simp add: revert_candidates_def i t)
  have rw: "revert_world self schema table w = w2"
    by (simp add: revert_world_def rs1 i t)
  have "cands = tables_to_revert_loop self1 (lower_filter self1 schema) (lower_filter self1 table) (tc self1)"
    using t by (auto simp: get_tables_to_revert_def Let_def)
  then have inseen: "\<forall>t \<in> set cands. key t \<in> snd ` set seen"
    using tables_to_revert_loop_seen[of _ self1] by (auto simp: self1_def)
  define rs where "rs = reverse_dict seen"
  have look: "\<forall>t \<in> set cands. \<exists>d. map_of rs (key t) = Some d \<and> (d, key t) \<in> set seen"
    using inseen reverse_dict_lookup[of _ seen] unfolding rs_def by blast
  then have some: "\<forall>t \<in> set cands. map_of rs (key t) \<noteq> None"
    by auto
  have rl: "revert_loop self schema table delete_managed w = revert_tasks self1 rs delete_managed cands w2"
    by (simp add: revert_loop_def rs1 ss rc rw rs_def)
  define tasks where "tasks = map (\<lambda>t. revert_migrated_table self1 t (the (map_of rs (key t))))
            (filter (\<lambda>t. kind t = ''VIEW'' \<or> object_type t = ''EXTERNAL'' \<or> delete_managed) cands)"
  obtain r3 w3 where rt: "revert_tasks self1 rs delete_managed cands w2 = (r3, w3)"
    by (cases "revert_tasks self1 rs delete_managed cands w2")
  have r3: "r3 = Inr tasks" and c3: "calls w3 = calls w2"
    using revert_tasks_result[OF some, of self1 delete_managed w2] rt
    by (simp_all add: tasks_def)
  have l3: "logs w3 = logs w2 @
     map (\<lambda>t. (INFO, ''Skipping '' @ object_type t @ '' Table '' @ database t @ ''.'' @ name t
                       @ '' upgraded_to '' @ str_opt (upgraded_to t)))
       (filter (\<lambda>t. \<not> (kind t = ''VIEW'' \<or> object_type t = ''EXTERNAL'' \<or> delete_managed)) cands)"
    using revert_tasks_logs[OF some, of self1 delete_managed w2] rt by simp
  have op: "revert_migrated_tables self schema table delete_managed w =
     (case Threads_strict ''revert migrated tables'' tasks w3 of
        (Inl e, w4) \<Rightarrow> (Inl e, self1, w4)
      | (Inr _, w4) \<Rightarrow> (Inr (), self1, w4))"
    by (simp add: revert_migrated_tables_def i t Let_def ss rt[unfolded rs_def] r3)
  have steps: "\<forall>t target v.
      (\<forall>e. on_execute (backend self) (calls v) (sql_unset_upgraded_to t) = Some e \<longrightarrow>
         fst (revert_migrated_table self1 t target v) = Inl e \<and>
         calls (snd (revert_migrated_table self1 t target v)) =
           calls v @ [Execute (sql_unset_upgraded_to t)]) \<and>
      (on_execute (backend self) (calls v) (sql_unset_upgraded_to t) = None \<longrightarrow>
         fst (revert_migrated_table self1 t target v) =
           (case on_execute (backend self) (calls v @ [Execute (sql_unset_upgraded_to t)])
                   (''DROP '' @ kind t @ '' IF EXISTS '' @ target) of
              None \<Rightarrow> Inr ()
            | Some e' \<Rightarrow> Inl e') \<and>
         calls (snd (revert_migrated_table self1 t target v)) =
           calls v @ [Execute (sql_unset_upgraded_to t),
                      Execute (''DROP '' @ kind t @ '' IF EXISTS '' @ target)])"
    using revert_migrated_table_steps[of self1] unfolding bs by blast
  show ?thesis
    unfolding rl rt rs1 rc rw ss fst_conv snd_conv
    using r3[unfolded tasks_def rs_def] c3 c2 l3 op[unfolded tasks_def rs_def]
      look[unfolded rs_def] steps
    by (intro conjI) simp_all
qed


theorem revert_migrated_tables_tasks_witness:
  "logs (snd (revert_loop example_estate None None False empty_world)) =
     [(INFO, ''Skipping MANAGED Table sales.stock upgraded_to main.sales.stock'')] \<and>
   calls (snd (revert_loop example_estate None None False empty_world)) = [] \<and>
   (case fst (revert_loop example_estate None None False empty_world) of
      Inl e \<Rightarrow> []
    | Inr tasks \<Rightarrow> map (\<lambda>task. calls (snd (task empty_world))) tasks) =
     [[Execute ''ALTER sales.orders UNSET upgraded_to'',
       Execute ''DROP TABLE IF EXISTS main.sales.orders'']] \<and>
   logs (snd (revert_loop example_estate None None True empty_world)) = [] \<and>
   (case fst (revert_loop example_estate None None True empty_world) of
      Inl e \<Rightarrow> []
    | Inr tasks \<Rightarrow> map (\<lambda>task. calls (snd (task empty_world))) tasks) =
     [[Execute ''ALTER sales.orders UNSET upgraded_to'',
       Execute ''DROP TABLE IF EXISTS main.sales.orders''],
      [Execute ''ALTER sales.stock UNSET upgraded_to'',
       Execute ''DROP TABLE IF EXISTS main.sales.stock'']] \<and>
   calls (snd (revert_migrated_table (revert_self example_estate empty_world) sales_stock
                 ''main.sales.stock'' empty_world)) =
     [Execute ''ALTER sales.stock UNSET upgraded_to'',
      Execute ''DROP TABLE IF EXISTS main.sales.stock'']"
proof -
  let ?skip = "\<lambda>t. (INFO, ''Skipping '' @ object_type t @ '' Table '' @ database t @ ''.'' @ name t
                       @ '' upgraded_to '' @ str_opt (upgraded_to t))"
  note th = revert_migrated_tables_tasks[of example_estate None None False empty_world]
  have lf: "logs (snd (revert_loop example_estate None None False empty_world)) =
     logs (revert_world example_estate None None empty_world) @
     map ?skip
       (filter (\<lambda>t. \<not> (kind t = ''VIEW'' \<or> object_type t = ''EXTERNAL'' \<or> False))
          (revert_candidates example_estate None None empty_world))"
    using th by blast
  have lv: "logs (revert_world example_estate None None empty_world) @
     map ?skip
       (filter (\<lambda>t. \<not> (kind t = ''VIEW'' \<or> object_type t = ''EXTERNAL'' \<or> False))
          (revert_candidates example_estate None None empty_world)) =
     [(INFO, ''Skipping MANAGED Table sales.stock upgraded_to main.sales.stock'')]"
    by code_simp
  have cf: "calls (snd (revert_loop example_estate None None False empty_world)) = calls empty_world"
    using th by blast
  have ok: "on_execute (backend example_estate) (calls empty_world) (sql_unset_upgraded_to sales_stock)
      = None"
    by (simp add: example_estate_def example_migrate_def answering_def)
  have "on_execute (backend example_estate) (calls empty_world) (sql_unset_upgraded_to sales_stock)
      = None \<longrightarrow>
    calls (snd (revert_migrated_table (revert_self example_estate empty_world) sales_stock
                 ''main.sales.stock'' empty_world)) =
    calls empty_world @ [Execute (sql_unset_upgraded_to sales_stock),
                         Execute (''DROP '' @ kind sales_stock @ '' IF EXISTS '' @ ''main.sales.stock'')]"
    using th by blast
  then have st: "calls (snd (revert_migrated_table (revert_self example_estate empty_world) sales_stock
                 ''main.sales.stock'' empty_world)) =
     [Execute ''ALTER sales.stock UNSET upgraded_to'',
      Execute ''DROP TABLE IF EXISTS main.sales.stock'']"
    using ok by (simp add: empty_world_def sales_stock_def example_table_def)
  have rest: "(case fst (revert_loop example_estate None None False empty_world) of
      Inl e \<Rightarrow> []
    | Inr tasks \<Rightarrow> map (\<lambda>task. calls (snd (task empty_world))) tasks) =
     [[Execute ''ALTER sales.orders UNSET upgraded_to'',
       Execute ''DROP TABLE IF EXISTS main.sales.orders'']]"
    "logs (snd (revert_loop example_estate None None True empty_world)) = []"
    "(case fst (revert_loop example_estate None None True empty_world) of
      Inl e \<Rightarrow> []
    | Inr tasks \<Rightarrow> map (\<lambda>task. calls (snd (task empty_world))) tasks) =
     [[Execute ''ALTER sales.orders UNSET upgraded_to'',
       Execute ''DROP TABLE IF EXISTS main.sales.orders''],
      [Execute ''ALTER sales.stock UNSET upgraded_to'',
       Execute ''DROP TABLE IF EXISTS main.sales.stock'']]"
    by code_simp+
  have e: "calls empty_world = []"
    by (simp add: empty_world_def)
  show ?thesis
    using lf[unfolded lv] cf[unfolded e] st rest by blast
qed


text \<open>
  The claim C3 as stated fails: with \<open>delete_managed\<close> not set, the managed table
  \<open>sales.stock\<close> is a candidate and the statement that clears its tag is not issued.
\<close>

theorem revert_managed_not_detached_counterexample:
  "kind sales_stock \<noteq> ''VIEW'' \<and> object_type sales_stock \<noteq> ''EXTERNAL'' \<and>
   map key (revert_candidates example_estate None None empty_world) =
     [''hive_metastore.sales.orders'', ''hive_metastore.sales.stock''] \<and>
   Execute (sql_unset_upgraded_to sales_stock)
     \<notin> set (calls (snd (snd (revert_migrated_tables example_estate None None False empty_world))))"
  by code_simp


section \<open>The crawl of the migration status\<close>

lemma length_crawl_worlds: "length (crawl_worlds self rs timestamp ts w) = length ts"
  by (induction ts arbitrary: w) simp_all

lemma crawl_table_at:
  assumes "map_of rs (key t) \<noteq> None \<longrightarrow> \<not> isl (fst (is_upgraded self (database t) (name t) v))"
  shows "\<exists>st. fst (crawl_table self rs timestamp t v) = Inr st \<and>
           src_schema st = database t \<and> src_table st = name t \<and> update_ts st = Some timestamp \<and>
           (case map_of rs (key t) of
              None \<Rightarrow> dst_catalog st = None \<and> dst_schema st = None \<and> dst_table st = None
            | Some target \<Rightarrow>
                if fst (is_upgraded self (database t) (name t) v) = Inr True \<and>
                   length (split CHR ''.'' target) = 3
                then dst_catalog st = Some (split CHR ''.'' target ! 0) \<and>
                     dst_schema st = Some (split CHR ''.'' target ! 1) \<and>
                     dst_table st = Some (split CHR ''.'' target ! 2)
                else dst_catalog st = None \<and> dst_schema st = None \<and> dst_table st = None)"
proof (cases "map_of rs (key t)")
  case None
  then show ?thesis
    by (simp add: crawl_table_def)
next
  case (Some target)
  then obtain b where b: "fst (is_upgraded self (database t) (name t) v) = Inr b"
    using assms by (cases "fst (is_upgraded self (database t) (name t) v)") auto
  obtain w1 where u: "is_upgraded self (database t) (name t) v = (Inr b, w1)"
    using b by (cases "is_upgraded self (database t) (name t) v") auto
  show ?thesis
    by (cases b; cases "length (split CHR ''.'' target) = 3")
       (simp_all add: crawl_table_def Some u and_then_Inr)
qed


lemma crawl_loop_at:
  assumes "\<forall>(t, v) \<in> set (zip ts (crawl_worlds self rs timestamp ts w')).
             map_of rs (key t) \<noteq> None \<longrightarrow> \<not> isl (fst (is_upgraded self (database t) (name t) v))"
  shows "\<exists>statuses.
           fst (crawl_loop self rs timestamp ts w') = Inr statuses \<and>
           list_all2
             (\<lambda>(t, v) st.
           src_schema st = database t \<and> src_table st = name t \<and> update_ts st = Some timestamp \<and>
           (case map_of rs (key t) of
              None \<Rightarrow> dst_catalog st = None \<and> dst_schema st = None \<and> dst_table st = None
            | Some target \<Rightarrow>
                if fst (is_upgraded self (database t) (name t) v) = Inr True \<and>
                   length (split CHR ''.'' target) = 3
                then dst_catalog st = Some (split CHR ''.'' target ! 0) \<and>
                     dst_schema st = Some (split CHR ''.'' target ! 1) \<and>
                     dst_table st = Some (split CHR ''.'' target ! 2)
                else dst_catalog st = None \<and> dst_schema st = None \<and> dst_table st = None))
             (zip ts (crawl_worlds self rs timestamp ts w')) statuses"
  using assms
proof (induction ts arbitrary: w')
  case Nil
  then show ?case by simp
next
  case (Cons t ts)
  have here: "map_of rs (key t) \<noteq> None \<longrightarrow> \<not> isl (fst (is_upgraded self (database t) (name t) w'))"
    using Cons.prems by simp
  obtain st where st: "fst (crawl_table self rs timestamp t w') = Inr st"
    and p: "src_schema st = database t \<and> src_table st = name t \<and> update_ts st = Some timestamp \<and>
           (case map_of rs (key t) of
              None \<Rightarrow> dst_catalog st = None \<and> dst_schema st = None \<and> dst_table st = None
            | Some target \<Rightarrow>
                if fst (is_upgraded self (database t) (name t) w') = Inr True \<and>
                   length (split CHR ''.'' target) = 3
                then dst_catalog st = Some (split CHR ''.'' target ! 0) \<and>
                     dst_schema st = Some (split CHR ''.'' target ! 1) \<and>
                     dst_table st = Some (split CHR ''.'' target ! 2)
                else dst_catalog st = None \<and> dst_schema st = None \<and> dst_table st = None)"
    using crawl_table_at[OF here, of timestamp] by blast
  define w2 where "w2 = snd (crawl_table self rs timestamp t w')"
  have c: "crawl_table self rs timestamp t w' = (Inr st, w2)"
    using st unfolding w2_def by (cases "crawl_table self rs timestamp t w'") auto
  have rest: "\<forall>(t, v) \<in> set (zip ts (crawl_worlds self rs timestamp ts w2)).
             map_of rs (key t) \<noteq> None \<longrightarrow> \<not> isl (fst (is_upgraded self (database t) (name t) v))"
    using Cons.prems unfolding w2_def by simp
  obtain sts where sts: "fst (crawl_loop self rs timestamp ts w2) = Inr sts"
    and ps: "list_all2
             (\<lambda>(t, v) st.
           src_schema st = database t \<and> src_table st = name t \<and> update_ts st = Some timestamp \<and>
           (case map_of rs (key t) of
              None \<Rightarrow> dst_catalog st = None \<and> dst_schema st = None \<and> dst_table st = None
            | Some target \<Rightarrow>
                if fst (is_upgraded self (database t) (name t) v) = Inr True \<and>
                   length (split CHR ''.'' target) = 3
                then dst_catalog st = Some (split CHR ''.'' target ! 0) \<and>
                     dst_schema st = Some (split CHR ''.'' target ! 1) \<and>
                     dst_table st = Some (split CHR ''.'' target ! 2)
                else dst_catalog st = None \<and> dst_schema st = None \<and> dst_table st = None))
             (zip ts (crawl_worlds self rs timestamp ts w2)) sts"
    using Cons.IH[OF rest] by blast
  obtain w3 where l: "crawl_loop self rs timestamp ts w2 = (Inr sts, w3)"
    using sts by (cases "crawl_loop self rs timestamp ts w2") auto
  have r: "fst (crawl_loop self rs timestamp (t # ts) w') = Inr (st # sts)"
    by (simp add: c l and_then_Inr)
  have z: "zip (t # ts) (crawl_worlds self rs timestamp (t # ts) w') =
      (t, w') # zip ts (crawl_worlds self rs timestamp ts w2)"
    by (simp add: w2_def)
  show ?case
    unfolding z r using p ps by simp
qed

text \<open>
  C5, as the code has it. When no point check that the crawl performs raises, \<open>crawl\<close>
  returns one status record for each table of the inventory, in the order of the
  inventory, with the table's database and name. The three destination fields of a record
  are set, to the three segments of the destination, if and only if the reversed index
  has the table's key, the point check \<open>is_upgraded\<close> answers true in the state in which
  the crawl reaches the table, and the destination has exactly three segments separated
  by dots; otherwise the three fields are unset. The answers of the backend may change
  during the crawl.
\<close>

theorem crawl_one_status_per_table:
  assumes "\<forall>(t, v) \<in> set (zip (table_crawler self)
                          (crawl_worlds self (reverse_dict (fst (get_seen_tables self w))) timestamp
                             (table_crawler self) (snd (get_seen_tables self w)))).
             map_of (reverse_dict (fst (get_seen_tables self w))) (key t) \<noteq> None \<longrightarrow>
             \<not> isl (fst (is_upgraded self (database t) (name t) v))"
  shows "\<exists>statuses.
      fst (crawl self timestamp w) = Inr statuses \<and>
      length statuses = length (table_crawler self) \<and>
      list_all2
        (\<lambda>(t, v) st.
           src_schema st = database t \<and> src_table st = name t \<and> update_ts st = Some timestamp \<and>
           (case map_of (reverse_dict (fst (get_seen_tables self w))) (key t) of
              None \<Rightarrow> dst_catalog st = None \<and> dst_schema st = None \<and> dst_table st = None
            | Some target \<Rightarrow>
                if fst (is_upgraded self (database t) (name t) v) = Inr True \<and>
                   length (split CHR ''.'' target) = 3
                then dst_catalog st = Some (split CHR ''.'' target ! 0) \<and>
                     dst_schema st = Some (split CHR ''.'' target ! 1) \<and>
                     dst_table st = Some (split CHR ''.'' target ! 2)
                else dst_catalog st = None \<and> dst_schema st = None \<and> dst_table st = None))
        (zip (table_crawler self)
           (crawl_worlds self (reverse_dict (fst (get_seen_tables self w))) timestamp
              (table_crawler self) (snd (get_seen_tables self w))))
        statuses"
proof -
  obtain seen w1 where g: "get_seen_tables self w = (seen, w1)"
    by (cases "get_seen_tables self w")
  have c: "crawl self timestamp w = crawl_loop self (reverse_dict seen) timestamp (table_crawler self) w1"
    by (simp add: crawl_def g Let_def)
  have a: "\<forall>(t, v) \<in> set (zip (table_crawler self)
                          (crawl_worlds self (reverse_dict seen) timestamp (table_crawler self) w1)).
             map_of (reverse_dict seen) (key t) \<noteq> None \<longrightarrow>
             \<not> isl (fst (is_upgraded self (database t) (name t) v))"
    using assms unfolding g by simp
  obtain statuses where s: "fst (crawl_loop self (reverse_dict seen) timestamp (table_crawler self) w1)
        = Inr statuses"
    and l: "list_all2
        (\<lambda>(t, v) st.
           src_schema st = database t \<and> src_table st = name t \<and> update_ts st = Some timestamp \<and>
           (case map_of (reverse_dict seen) (key t) of
              None \<Rightarrow> dst_catalog st = None \<and> dst_schema st = None \<and> dst_table st = None
            | Some target \<Rightarrow>
                if fst (is_upgraded self (database t) (name t) v) = Inr True \<and>
                   length (split CHR ''.'' target) = 3
                then dst_catalog st = Some (split CHR ''.'' target ! 0) \<and>
                     dst_schema st = Some (split CHR ''.'' target ! 1) \<and>
                     dst_table st = Some (split CHR ''.'' target ! 2)
                else dst_catalog st = None \<and> dst_schema st = None \<and> dst_table st = None))
        (zip (table_crawler self)
           (crawl_worlds self (reverse_dict seen) timestamp (table_crawler self) w1))
        statuses"
    using crawl_loop_at[OF a] by blast
  have "length statuses = length (table_crawler self)"
    using list_all2_lengthD[OF l] by (simp add: length_crawl_worlds)
  then show ?thesis
    unfolding g c fst_conv snd_conv using s l by blast
qed


theorem crawl_one_status_per_table_witness:
  "fst (crawl fading_refresher ''1700000000.0'' empty_world) =
     Inr [\<lparr>src_schema = ''sales'', src_table = ''orders'', dst_catalog = Some ''main'',
           dst_schema = Some ''sales'', dst_table = Some ''orders'',
           update_ts = Some ''1700000000.0''\<rparr>,
          \<lparr>src_schema = ''sales'', src_table = ''stock'', dst_catalog = None,
           dst_schema = None, dst_table = None, update_ts = Some ''1700000000.0''\<rparr>] \<and>
   length (table_crawler fading_refresher) = 2 \<and>
   map_of (reverse_dict (fst (get_seen_tables fading_refresher empty_world))) (key sales_stock) =
     Some ''main.sales.stock''"
proof -
  have a: "\<forall>(t, v) \<in> set (zip (table_crawler fading_refresher)
                          (crawl_worlds fading_refresher
                             (reverse_dict (fst (get_seen_tables fading_refresher empty_world)))
                             ''1700000000.0'' (table_crawler fading_refresher)
                             (snd (get_seen_tables fading_refresher empty_world)))).
             map_of (reverse_dict (fst (get_seen_tables fading_refresher empty_world))) (key t) \<noteq> None \<longrightarrow>
             \<not> isl (fst (is_upgraded fading_refresher (database t) (name t) v))"
    by code_simp
  obtain statuses where s: "fst (crawl fading_refresher ''1700000000.0'' empty_world) = Inr statuses"
    and l: "length statuses = length (table_crawler fading_refresher)"
    using crawl_one_status_per_table[OF a] by blast
  have ev: "fst (crawl fading_refresher ''1700000000.0'' empty_world) =
     Inr [\<lparr>src_schema = ''sales'', src_table = ''orders'', dst_catalog = Some ''main'',
           dst_schema = Some ''sales'', dst_table = Some ''orders'',
           update_ts = Some ''1700000000.0''\<rparr>,
          \<lparr>src_schema = ''sales'', src_table = ''stock'', dst_catalog = None,
           dst_schema = None, dst_table = None, update_ts = Some ''1700000000.0''\<rparr>]"
    by code_simp
  have k: "map_of (reverse_dict (fst (get_seen_tables fading_refresher empty_world))) (key sales_stock) =
     Some ''main.sales.stock''"
    by code_simp
  have "length statuses = 2"
    using s ev by auto
  then show ?thesis
    using ev l k by simp
qed


text \<open>
  The claim C5 as stated fails for a destination that does not have three segments: the
  reversed index has the key of \<open>sales.orders\<close> and the point check answers true, yet
  the destination fields of its record are unset.
\<close>

theorem crawl_malformed_destination_counterexample:
  "map_of (reverse_dict (fst (get_seen_tables (crawl_refresher ''main.orders'') empty_world)))
     (key sales_orders) = Some ''main.orders'' \<and>
   fst (is_upgraded (crawl_refresher ''main.orders'') (database sales_orders) (name sales_orders)
          empty_world) = Inr True \<and>
   fst (crawl (crawl_refresher ''main.orders'') ''1700000000.0'' empty_world) =
     Inr [\<lparr>src_schema = ''sales'', src_table = ''orders'', dst_catalog = None,
           dst_schema = None, dst_table = None, update_ts = Some ''1700000000.0''\<rparr>,
          \<lparr>src_schema = ''sales'', src_table = ''legacy'', dst_catalog = None,
           dst_schema = None, dst_table = None, update_ts = Some ''1700000000.0''\<rparr>]"
  by code_simp


end
